theory Spec2Isabelle
  imports Complex_Main "HOL-Library.Sublist"
begin

section \<open>Python strings\<close>

text \<open>
  A Python \<open>str\<close> is a sequence of Unicode code points and \<open>len\<close> counts code points,
  so a string is a list of natural numbers here. \<open>lit\<close> turns an ASCII literal of the
  source into such a list.
\<close>

type_synonym pystr = "nat list"

definition lit :: "string \<Rightarrow> pystr" where
  "lit s = map of_char s"

definition NL :: nat where
  "NL = 10"

definition BACKSLASH :: nat where
  "BACKSLASH = 92"

definition PIPE :: nat where
  "PIPE = 124"

text \<open>The code points for which \<open>str.isspace\<close> holds: what \<open>str.strip()\<close> removes.\<close>

definition isspace :: "nat \<Rightarrow> bool" where
  "isspace c = ((9 \<le> c \<and> c \<le> 13) \<or> (28 \<le> c \<and> c \<le> 32) \<or> c = 133 \<or> c = 160
     \<or> c = 5760 \<or> (8192 \<le> c \<and> c \<le> 8202) \<or> c = 8232 \<or> c = 8233 \<or> c = 8239
     \<or> c = 8287 \<or> c = 12288)"

definition strip :: "pystr \<Rightarrow> pystr" where
  "strip s = rev (dropWhile isspace (rev (dropWhile isspace s)))"

text \<open>\<open>sep.join(xs)\<close>.\<close>

fun join :: "pystr \<Rightarrow> pystr list \<Rightarrow> pystr" where
  "join sep [] = []"
| "join sep [x] = x"
| "join sep (x # y # ys) = x @ sep @ join sep (y # ys)"

text \<open>\<open>s.replace(c, new)\<close> for a one-character \<open>c\<close>.\<close>

definition replace :: "nat \<Rightarrow> pystr \<Rightarrow> pystr \<Rightarrow> pystr" where
  "replace c new s = concat (map (\<lambda>x. if x = c then new else [x]) s)"

text \<open>\<open>needle in hay\<close> on strings: \<open>needle\<close> occurs in \<open>hay\<close> as a contiguous block.\<close>

fun contains :: "pystr \<Rightarrow> pystr \<Rightarrow> bool" where
  "contains [] needle = (needle = [])"
| "contains (h # hs) needle = (prefix needle (h # hs) \<or> contains hs needle)"

text \<open>\<open>str(n)\<close> for an integer, as an f-string inserts it.\<close>

fun str_nat :: "nat \<Rightarrow> pystr" where
  "str_nat n = (if n < 10 then [48 + n] else str_nat (n div 10) @ [48 + n mod 10])"

declare str_nat.simps [simp del]

definition str_int :: "int \<Rightarrow> pystr" where
  "str_int i = (if i < 0 then 45 # str_nat (nat (- i)) else str_nat (nat i))"

section \<open>The parsed presentation\<close>

text \<open>
  The presentation library is not part of the repository. A shape is the record of what
  the converter probes on it: an attribute the source tests with \<open>hasattr\<close> is an
  optional field, \<open>None\<close> when the shape does not have it.
\<close>

text \<open>The exceptions that arise inside \<open>process_slide\<close>; \<open>ValueError\<close> carries its message.\<close>

datatype exn = AttributeError | ValueError pystr

definition str_exn :: "exn \<Rightarrow> pystr" where
  "str_exn x = (case x of AttributeError \<Rightarrow> [] | ValueError msg \<Rightarrow> msg)"

text \<open>
  The paragraph properties element \<open>a:pPr\<close> of the file, with the three children by which
  the format declares a bullet: a bullet character, automatic numbering, an image.
  \<open>paragraph._element.pPr\<close>: the lookup raises \<open>AttributeError\<close>, or yields \<open>None\<close>, or
  yields the element.
\<close>

record pPr_element =
  buChar :: "pystr option"
  buAutoNum :: "pystr option"
  buBlip :: "pystr option"

datatype pPr_lookup = PPr_AttributeError | PPr_None | PPr pPr_element

text \<open>A run carries \<open>font.size\<close>: \<open>None\<close> or a length in English Metric Units.\<close>

datatype run = Run (font_size_emu: "int option")

record text_paragraph =
  par_text :: pystr
  par_level :: int
  par_pPr :: pPr_lookup
  par_runs :: "run list"

text \<open>
  The attribute \<open>table\<close> of a shape. A shape without the attribute raises
  \<open>AttributeError\<close> on the lookup, which \<open>hasattr\<close> turns into false. A graphic frame
  has the attribute as a property that raises \<open>ValueError\<close> when the frame holds no table
  (a chart), and \<open>hasattr\<close> lets that exception through. Otherwise the lookup yields the
  table: its rows of cell texts.
\<close>

datatype table_lookup = No_table | Table_raises pystr | Table "pystr list list"

record shape =
  shape_type :: "int option"
  placeholder_format :: "int option"
  sh_text :: "pystr option"
  text_frame :: "text_paragraph list option"
  sh_table :: table_lookup
  sh_name :: "pystr option"

record slide =
  shapes :: "shape list"

text \<open>\<open>MSO_SHAPE_TYPE.PLACEHOLDER\<close>.\<close>

definition PLACEHOLDER :: int where
  "PLACEHOLDER = 14"

text \<open>
  Members of the library's enumeration of placeholder types: a title is 1, a header 14
  and a footer 15. The comment in \<open>get_slide_title\<close> reads \<open>14=Header, 15=Title\<close>.
\<close>

definition PP_TITLE :: int where
  "PP_TITLE = 1"

definition PP_HEADER :: int where
  "PP_HEADER = 14"

definition PP_FOOTER :: int where
  "PP_FOOTER = 15"

section \<open>Title resolution\<close>

text \<open>The body of the first loop of \<open>get_slide_title\<close>: what one shape makes it return.\<close>

definition placeholder_title :: "shape \<Rightarrow> pystr option" where
  "placeholder_title s =
     (if shape_type s = Some PLACEHOLDER then
        (case placeholder_format s of
           None \<Rightarrow> None
         | Some ty \<Rightarrow>
             if ty = 14 \<or> ty = 15 then
               (case sh_text s of
                  None \<Rightarrow> None
                | Some t \<Rightarrow> if strip t \<noteq> [] then Some (strip t) else None)
             else None)
      else None)"

text \<open>The body of the fallback loop.\<close>

definition fallback_title :: "shape \<Rightarrow> pystr option" where
  "fallback_title s =
     (case sh_text s of
        None \<Rightarrow> None
      | Some t \<Rightarrow>
          if strip t \<noteq> [] then
            (if length (strip t) < 100 \<and> NL \<notin> set (strip t) then Some (strip t) else None)
          else None)"

text \<open>A \<open>for\<close> loop that returns at the first shape its body returns on.\<close>

fun first_return :: "('a \<Rightarrow> 'b option) \<Rightarrow> 'a list \<Rightarrow> 'b option" where
  "first_return body [] = None"
| "first_return body (x # xs) =
     (case body x of Some r \<Rightarrow> Some r | None \<Rightarrow> first_return body xs)"

definition get_slide_title :: "slide \<Rightarrow> pystr" where
  "get_slide_title sl =
     (case first_return placeholder_title (shapes sl) of
        Some t \<Rightarrow> t
      | None \<Rightarrow>
          (case first_return fallback_title (shapes sl) of
             Some t \<Rightarrow> t
           | None \<Rightarrow> lit ''Untitled''))"

section \<open>The environment of a run\<close>

text \<open>
  What a run of the converter gets from outside the repository: the members of the
  library's \<open>MSO_SHAPE_TYPE\<close> (\<open>getattr(MSO_SHAPE_TYPE, attr_name, None)\<close>), how a shape
  type prints in an f-string, what \<open>getattr(pPr, name, None)\<close> yields on a paragraph
  properties element, and the order in which the interpreter iterates
  \<open>set(other_shapes)\<close>.
\<close>

record env =
  mso_member :: "string \<Rightarrow> int option"
  mso_str :: "int option \<Rightarrow> pystr"
  pPr_getattr :: "string \<Rightarrow> pPr_element \<Rightarrow> pystr option"
  set_iter :: "pystr list \<Rightarrow> pystr list"

section \<open>Paragraph and table extraction\<close>

text \<open>
  The dictionary \<open>para_info\<close>. The key \<open>font_size\<close> is optional; \<open>used_as_header\<close> is set
  by \<open>process_slide\<close> and read with \<open>get\<close>, so a missing key reads as false.
\<close>

record para_info =
  pi_text :: pystr
  pi_level :: int
  is_bullet :: bool
  font_size :: "real option"
  used_as_header :: bool

text \<open>The body of the \<open>try\<close> block: \<open>Inl\<close> when the lookup of \<open>pPr\<close> raises.\<close>

definition bullet_try :: "env \<Rightarrow> pPr_lookup \<Rightarrow> exn + bool" where
  "bullet_try e l =
     (case l of
        PPr_AttributeError \<Rightarrow> Inl AttributeError
      | PPr_None \<Rightarrow> Inr False
      | PPr pPr \<Rightarrow>
          Inr (pPr_getattr e ''buChar'' pPr \<noteq> None
               \<or> pPr_getattr e ''buAutoNum'' pPr \<noteq> None
               \<or> pPr_getattr e ''buBlip'' pPr \<noteq> None))"

text \<open>
  The \<open>try\<close> with its \<open>except AttributeError: pass\<close>: the flag keeps its initial value.
  No other exception arises in the block.
\<close>

definition bullet_flag :: "env \<Rightarrow> pPr_lookup \<Rightarrow> bool" where
  "bullet_flag e l = (case bullet_try e l of Inl _ \<Rightarrow> False | Inr b \<Rightarrow> b)"

text \<open>\<open>runs[0].font.size.pt\<close> when there is a first run and its size is truthy.\<close>

definition first_font_size :: "run list \<Rightarrow> real option" where
  "first_font_size runs =
     (case runs of
        [] \<Rightarrow> None
      | r # _ \<Rightarrow>
          (case font_size_emu r of
             None \<Rightarrow> None
           | Some sz \<Rightarrow> if sz \<noteq> 0 then Some (real_of_int sz / 12700) else None))"

definition make_para_info :: "env \<Rightarrow> text_paragraph \<Rightarrow> para_info" where
  "make_para_info e p =
     \<lparr> pi_text = strip (par_text p),
       pi_level = par_level p,
       is_bullet = bullet_flag e (par_pPr p),
       font_size = first_font_size (par_runs p),
       used_as_header = False \<rparr>"

fun paragraphs_loop :: "env \<Rightarrow> text_paragraph list \<Rightarrow> para_info list" where
  "paragraphs_loop e [] = []"
| "paragraphs_loop e (p # ps) =
     (if strip (par_text p) = [] then paragraphs_loop e ps
      else make_para_info e p # paragraphs_loop e ps)"

definition extract_paragraphs :: "env \<Rightarrow> shape \<Rightarrow> para_info list" where
  "extract_paragraphs e s =
     (case text_frame s of None \<Rightarrow> [] | Some ps \<Rightarrow> paragraphs_loop e ps)"

text \<open>\<open>hasattr(shape, "table")\<close>: false, or the exception of the property, or true.\<close>

definition has_table :: "shape \<Rightarrow> exn + bool" where
  "has_table s =
     (case sh_table s of
        No_table \<Rightarrow> Inr False
      | Table_raises msg \<Rightarrow> Inl (ValueError msg)
      | Table _ \<Rightarrow> Inr True)"

definition extract_table_data :: "shape \<Rightarrow> exn + pystr list list" where
  "extract_table_data s =
     (case sh_table s of
        No_table \<Rightarrow> Inr []
      | Table_raises msg \<Rightarrow> Inl (ValueError msg)
      | Table rows \<Rightarrow> Inr (map (map strip) rows))"

section \<open>Rendering\<close>

definition sanitize_markdown :: "pystr \<Rightarrow> pystr" where
  "sanitize_markdown t = replace BACKSLASH [BACKSLASH, BACKSLASH] t"

text \<open>
  One turn of the loop of \<open>paragraphs_to_markdown\<close>: the line it appends, \<open>None\<close> when it
  continues without one.
\<close>

definition para_line :: "int \<Rightarrow> para_info \<Rightarrow> pystr option" where
  "para_line base_level para =
     (let t = sanitize_markdown (pi_text para) in
      if t = [] then None
      else if \<not> is_bullet para \<and> length t < 80 then
        Some (replicate (nat base_level) 35 @ lit '' '' @ t)
      else if is_bullet para then
        Some (concat (replicate (nat (pi_level para)) (lit ''  '')) @ lit ''* '' @ t)
      else Some t)"

fun para_lines :: "int \<Rightarrow> para_info list \<Rightarrow> pystr list" where
  "para_lines base_level [] = []"
| "para_lines base_level (p # ps) =
     (case para_line base_level p of
        None \<Rightarrow> para_lines base_level ps
      | Some l \<Rightarrow> l # para_lines base_level ps)"

definition paragraphs_to_markdown :: "para_info list \<Rightarrow> int \<Rightarrow> pystr" where
  "paragraphs_to_markdown paragraphs base_level =
     (if paragraphs = [] then [] else join [NL] (para_lines base_level paragraphs))"

definition escape_cell :: "pystr \<Rightarrow> pystr" where
  "escape_cell cell = replace PIPE [BACKSLASH, PIPE] (sanitize_markdown cell)"

definition row_line :: "pystr list \<Rightarrow> pystr" where
  "row_line cells = lit ''| '' @ join (lit '' | '') cells @ lit '' |''"

definition table_to_markdown :: "pystr list list \<Rightarrow> pystr" where
  "table_to_markdown table_data =
     (case table_data of
        [] \<Rightarrow> []
      | first # rest \<Rightarrow>
          if first = [] then []
          else
            (let headers = map escape_cell first in
             join [NL]
               (row_line headers
                # (lit ''|'' @ join (lit ''|'') (replicate (length headers) (lit ''---'')) @ lit ''|'')
                # map (\<lambda>row. row_line (map escape_cell row)) rest)))"

section \<open>Shape descriptions\<close>

definition attr_names :: "string list" where
  "attr_names = [''PICTURE'', ''CHART'', ''GROUP'', ''LINE'', ''OVAL'',
                 ''RECTANGLE'', ''ROUNDED_RECTANGLE'', ''AUTO_SHAPE'']"

definition attr_label :: "string \<Rightarrow> pystr" where
  "attr_label a =
     (if a = ''PICTURE'' then lit ''Image''
      else if a = ''CHART'' then lit ''Chart''
      else if a = ''GROUP'' then lit ''Grouped content''
      else if a = ''LINE'' then lit ''Line''
      else if a = ''OVAL'' then lit ''Oval/Circle''
      else if a = ''RECTANGLE'' then lit ''Rectangle/Box''
      else if a = ''ROUNDED_RECTANGLE'' then lit ''Rounded rectangle''
      else if a = ''AUTO_SHAPE'' then lit ''Shape''
      else lit ''Shape'')"

text \<open>The dictionary \<open>descriptions\<close>: a later assignment to a key replaces an earlier one.\<close>

definition descriptions :: "env \<Rightarrow> (int option \<rightharpoonup> pystr)" where
  "descriptions e = foldl (\<lambda>d a. d(mso_member e a \<mapsto> attr_label a)) Map.empty attr_names"

definition get_shape_description :: "env \<Rightarrow> shape \<Rightarrow> pystr" where
  "get_shape_description e s =
     (let desc = (case descriptions e (shape_type s) of
                    Some l \<Rightarrow> l
                  | None \<Rightarrow> lit ''Shape type '' @ mso_str e (shape_type s))
      in case sh_name s of
           None \<Rightarrow> desc
         | Some n \<Rightarrow> if n \<noteq> [] then desc @ lit '' ('' @ n @ lit '')'' else desc)"

section \<open>Section and markdown assembly\<close>

record content_section =
  sec_title :: "pystr option"
  sec_paragraphs :: "para_info list"

text \<open>The four variables the shape loop of \<open>process_slide\<close> updates.\<close>

record loop_state =
  title_shape_found :: bool
  content_sections :: "content_section list"
  tables :: "pystr list list list"
  other_shapes :: "pystr list"

text \<open>
  The test \<open>has_content\<close>: \<open>or\<close> evaluates \<open>hasattr(shape, "table")\<close> only when the shape
  has no text or its trimmed text is empty.
\<close>

definition has_content :: "shape \<Rightarrow> exn + bool" where
  "has_content s =
     (if (case sh_text s of None \<Rightarrow> False | Some t \<Rightarrow> strip t \<noteq> []) then Inr True
      else has_table s)"

text \<open>The test of the title check, on a shape that has the attribute \<open>text\<close>.\<close>

definition is_title_text :: "pystr \<Rightarrow> pystr \<Rightarrow> bool" where
  "is_title_text title shape_text =
     (shape_text = title \<or> (length shape_text < 100 \<and> contains title shape_text))"

text \<open>
  The inner loop that picks the section title: the first paragraph that is no bullet
  and shorter than 50 is marked and the loop breaks.
\<close>

fun mark_header :: "para_info list \<Rightarrow> pystr option \<times> para_info list" where
  "mark_header [] = (None, [])"
| "mark_header (p # ps) =
     (if \<not> is_bullet p \<and> length (pi_text p) < 50
      then (Some (pi_text p), p\<lparr>used_as_header := True\<rparr> # ps)
      else (case mark_header ps of (t, ps') \<Rightarrow> (t, p # ps')))"

definition make_section :: "para_info list \<Rightarrow> content_section" where
  "make_section paragraphs =
     (case mark_header paragraphs of
        (t, ps) \<Rightarrow> \<lparr> sec_title = t, sec_paragraphs = ps \<rparr>)"

text \<open>The branch of a shape without content: its description is recorded.\<close>

definition add_description :: "env \<Rightarrow> loop_state \<Rightarrow> shape \<Rightarrow> loop_state" where
  "add_description e st s =
     (let desc = get_shape_description e s in
      if desc \<noteq> [] then st\<lparr>other_shapes := other_shapes st @ [desc]\<rparr> else st)"

text \<open>The branch that extracts content: a table, or else paragraphs.\<close>

definition add_content :: "env \<Rightarrow> loop_state \<Rightarrow> shape \<Rightarrow> exn + loop_state" where
  "add_content e st s =
     (case has_table s of
        Inl x \<Rightarrow> Inl x
      | Inr True \<Rightarrow>
          (case extract_table_data s of
             Inl x \<Rightarrow> Inl x
           | Inr table_data \<Rightarrow>
               Inr (if table_data \<noteq> [] then st\<lparr>tables := tables st @ [table_data]\<rparr> else st))
      | Inr False \<Rightarrow>
          (let paragraphs = extract_paragraphs e s in
           Inr (if paragraphs \<noteq> []
                then st\<lparr>content_sections := content_sections st @ [make_section paragraphs]\<rparr>
                else st)))"

text \<open>One turn of the shape loop: the new state, or the exception that leaves the loop.\<close>

definition shape_step :: "env \<Rightarrow> pystr \<Rightarrow> loop_state \<Rightarrow> shape \<Rightarrow> exn + loop_state" where
  "shape_step e title st s =
     (case has_content s of
        Inl x \<Rightarrow> Inl x
      | Inr c \<Rightarrow>
          if \<not> c then Inr (add_description e st s)
          else if \<not> title_shape_found st
                  \<and> (case sh_text s of None \<Rightarrow> False | Some t \<Rightarrow> is_title_text title (strip t))
          then Inr (st\<lparr>title_shape_found := True\<rparr>)
          else add_content e st s)"

fun shape_loop :: "env \<Rightarrow> pystr \<Rightarrow> loop_state \<Rightarrow> shape list \<Rightarrow> exn + loop_state" where
  "shape_loop e title st [] = Inr st"
| "shape_loop e title st (s # ss) =
     (case shape_step e title st s of
        Inl x \<Rightarrow> Inl x
      | Inr st' \<Rightarrow> shape_loop e title st' ss)"

definition initial_state :: loop_state where
  "initial_state =
     \<lparr> title_shape_found = False, content_sections = [], tables = [], other_shapes = [] \<rparr>"

text \<open>The lines each of the three rendering loops appends to \<open>md_lines\<close>.\<close>

definition section_lines :: "content_section \<Rightarrow> pystr list" where
  "section_lines sec =
     (case sec_title sec of
        None \<Rightarrow> []
      | Some t \<Rightarrow> if t \<noteq> [] then [NL # lit ''## '' @ sanitize_markdown t] else [])
     @ (let content_paras = filter (\<lambda>p. \<not> used_as_header p) (sec_paragraphs sec) in
        if content_paras \<noteq> [] then [paragraphs_to_markdown content_paras 3] else [])
     @ [[]]"

definition table_lines :: "pystr list list \<Rightarrow> pystr list" where
  "table_lines table_data =
     [NL # lit ''## Data Table'' @ [NL], table_to_markdown table_data, []]"

definition other_lines :: "env \<Rightarrow> pystr list \<Rightarrow> pystr list" where
  "other_lines e descs =
     (if descs \<noteq> [] then
        [NL # lit ''## Visual Elements'' @ [NL]]
        @ map (\<lambda>desc. lit ''- '' @ desc) (set_iter e descs)
        @ [[]]
      else [])"

definition slide_heading :: "int \<Rightarrow> pystr \<Rightarrow> pystr" where
  "slide_heading slide_num title =
     NL # lit ''# Slide '' @ str_int slide_num @ lit '' - '' @ title @ [NL]"

definition md_lines :: "env \<Rightarrow> int \<Rightarrow> pystr \<Rightarrow> loop_state \<Rightarrow> pystr list" where
  "md_lines e slide_num title st =
     [slide_heading slide_num title]
     @ concat (map section_lines (content_sections st))
     @ concat (map table_lines (tables st))
     @ other_lines e (other_shapes st)"

definition process_slide :: "env \<Rightarrow> slide \<Rightarrow> int \<Rightarrow> exn + pystr" where
  "process_slide e sl slide_num =
     (let title = get_slide_title sl in
      case shape_loop e title initial_state (shapes sl) of
        Inl x \<Rightarrow> Inl x
      | Inr st \<Rightarrow> Inr (join [NL] (md_lines e slide_num title st)))"

section \<open>Files and the batch driver\<close>

text \<open>
  A path with the parts the converter reads, and the two calls that leave the program:
  \<open>Presentation(str(pptx_path))\<close>, which raises (\<open>Inl\<close> the exception's message) or yields
  the slides, and writing the markdown file, which raises (\<open>Some\<close> the message) or not.
  The third source of an exception inside the \<open>try\<close> block of \<open>process_pptx_file\<close> is
  \<open>process_slide\<close>.
\<close>

record pptx_path =
  path_name :: pystr
  path_stem :: pystr
  path_parent :: pystr

record world =
  Presentation :: "pptx_path \<Rightarrow> pystr + slide list"
  write_error :: "pystr \<Rightarrow> pystr option"

text \<open>What a run leaves behind: the lines printed to each stream and the files written.\<close>

record effects =
  stdout :: "pystr list"
  stderr :: "pystr list"
  written :: "(pystr \<times> pystr) list"

fun slides_loop :: "env \<Rightarrow> int \<Rightarrow> slide list \<Rightarrow> exn + pystr list" where
  "slides_loop e idx [] = Inr []"
| "slides_loop e idx (sl # sls) =
     (case process_slide e sl (idx + 1) of
        Inl x \<Rightarrow> Inl x
      | Inr slide_md \<Rightarrow>
          (case slides_loop e (idx + 1) sls of
             Inl x \<Rightarrow> Inl x
           | Inr rest \<Rightarrow> Inr (slide_md # rest)))"

definition md_content :: "env \<Rightarrow> pptx_path \<Rightarrow> slide list \<Rightarrow> exn + pystr list" where
  "md_content e p slides =
     (case slides_loop e 0 slides of
        Inl x \<Rightarrow> Inl x
      | Inr slide_mds \<Rightarrow>
          Inr ([lit ''# '' @ path_stem p @ [NL],
                lit ''*Converted from '' @ path_name p @ lit ''*'' @ [NL],
                lit ''---'' @ [NL]]
               @ slide_mds))"

definition report_error :: "pystr \<Rightarrow> effects \<Rightarrow> effects" where
  "report_error msg out = out\<lparr>stderr := stderr out @ [lit ''  -> Error: '' @ msg]\<rparr>"

definition process_pptx_file ::
  "world \<Rightarrow> env \<Rightarrow> pptx_path \<Rightarrow> pystr \<Rightarrow> effects \<Rightarrow> bool \<times> effects" where
  "process_pptx_file w e p output_dir out =
     (let out1 = out\<lparr>stdout := stdout out @ [lit ''Processing: '' @ path_name p]\<rparr> in
      case Presentation w p of
        Inl msg \<Rightarrow> (False, report_error msg out1)
      | Inr slides \<Rightarrow>
          (case md_content e p slides of
             Inl x \<Rightarrow> (False, report_error (str_exn x) out1)
           | Inr content \<Rightarrow>
               (let md_filename = path_stem p @ lit ''.md'';
                    md_path = output_dir @ lit ''/'' @ md_filename
                in case write_error w md_path of
                     Some msg \<Rightarrow> (False, report_error msg out1)
                   | None \<Rightarrow>
                       (True,
                        out1\<lparr>written := written out1 @ [(md_path, join [NL] content)],
                             stdout := stdout out1 @ [lit ''  -> Created: '' @ md_filename]\<rparr>))))"

fun files_loop ::
  "world \<Rightarrow> env \<Rightarrow> pystr \<Rightarrow> pptx_path list \<Rightarrow> nat \<times> effects \<Rightarrow> nat \<times> effects" where
  "files_loop w e output_dir [] (success_count, out) = (success_count, out)"
| "files_loop w e output_dir (f # fs) (success_count, out) =
     (case process_pptx_file w e f output_dir out of
        (ok, out') \<Rightarrow>
          files_loop w e output_dir fs (if ok then success_count + 1 else success_count, out'))"

text \<open>
  \<open>main\<close> from the collected work list \<open>pptx_files\<close> on: the value it returns is the
  exit status. \<open>out_arg\<close> is \<open>args.output\<close>.
\<close>

definition main :: "world \<Rightarrow> env \<Rightarrow> pptx_path list \<Rightarrow> pystr option \<Rightarrow> effects \<Rightarrow> int \<times> effects" where
  "main w e pptx_files out_arg out =
     (case pptx_files of
        [] \<Rightarrow> (1, out\<lparr>stderr := stderr out @ [lit ''No PPTX files found to process.'']\<rparr>)
      | first # _ \<Rightarrow>
          (let output_dir = (case out_arg of Some d \<Rightarrow> d | None \<Rightarrow> path_parent first);
               out1 = out\<lparr>stdout := stdout out
                         @ [lit ''Found '' @ str_nat (length pptx_files) @ lit '' PPTX file(s)'',
                            lit ''Output directory: '' @ output_dir @ [NL]]\<rparr>
           in case files_loop w e output_dir pptx_files (0, out1) of
                (success_count, out2) \<Rightarrow>
                  (if success_count = length pptx_files then 0 else 1,
                   out2\<lparr>stdout := stdout out2
                         @ [NL # lit ''Completed: '' @ str_nat success_count @ lit ''/''
                            @ str_nat (length pptx_files) @ lit '' files converted'']\<rparr>)))"

section \<open>The specification's notions\<close>

text \<open>The trimmed text of a shape; empty when the shape has no text.\<close>

definition trimmed_text :: "shape \<Rightarrow> pystr" where
  "trimmed_text s = (case sh_text s of None \<Rightarrow> [] | Some t \<Rightarrow> strip t)"

text \<open>
  Title resolution as the specification words it: a search for a placeholder whose
  type is Title or Header, a search for a short text, and a default.
\<close>

definition is_title_placeholder :: "shape \<Rightarrow> bool" where
  "is_title_placeholder s =
     (shape_type s = Some PLACEHOLDER
      \<and> (placeholder_format s = Some PP_TITLE \<or> placeholder_format s = Some PP_HEADER)
      \<and> trimmed_text s \<noteq> [])"

definition is_short_text :: "shape \<Rightarrow> bool" where
  "is_short_text s =
     (trimmed_text s \<noteq> [] \<and> length (trimmed_text s) < 100 \<and> NL \<notin> set (trimmed_text s))"

definition spec_title :: "slide \<Rightarrow> pystr" where
  "spec_title sl =
     (case find is_title_placeholder (shapes sl) of
        Some s \<Rightarrow> trimmed_text s
      | None \<Rightarrow>
          (case find is_short_text (shapes sl) of
             Some s \<Rightarrow> trimmed_text s
           | None \<Rightarrow> lit ''Untitled''))"

text \<open>The first search as the source runs it: the placeholder types it accepts are 14 and 15.\<close>

definition is_header_or_footer :: "shape \<Rightarrow> bool" where
  "is_header_or_footer s =
     (shape_type s = Some PLACEHOLDER
      \<and> (placeholder_format s = Some PP_HEADER \<or> placeholder_format s = Some PP_FOOTER)
      \<and> trimmed_text s \<noteq> [])"

text \<open>
  The title skip. \<open>stated_skip\<close> is the rule as the specification states it: the text
  equals the title or occurs in it, and is under 100 characters. \<open>title_skip\<close> is the rule
  of the source: only a shape with content is tested, and the bound of 100 guards the
  substring test alone.
\<close>

definition stated_skip :: "pystr \<Rightarrow> shape \<Rightarrow> bool" where
  "stated_skip title s =
     ((trimmed_text s = title \<or> contains title (trimmed_text s)) \<and> length (trimmed_text s) < 100)"

definition title_skip :: "pystr \<Rightarrow> shape \<Rightarrow> bool" where
  "title_skip title s =
     (has_content s = Inr True
      \<and> (case sh_text s of
            None \<Rightarrow> False
          | Some t \<Rightarrow> strip t = title \<or> (length (strip t) < 100 \<and> contains title (strip t))))"

fun remove_first :: "('a \<Rightarrow> bool) \<Rightarrow> 'a list \<Rightarrow> 'a list" where
  "remove_first P [] = []"
| "remove_first P (x # xs) = (if P x then xs else x # remove_first P xs)"

text \<open>
  What a shape that is not skipped does: it adds to the queues or raises. \<open>emit_loop\<close>
  does so for every shape of a list in turn.
\<close>

definition emit :: "env \<Rightarrow> loop_state \<Rightarrow> shape \<Rightarrow> exn + loop_state" where
  "emit e st s =
     (case has_content s of
        Inl x \<Rightarrow> Inl x
      | Inr c \<Rightarrow> if \<not> c then Inr (add_description e st s) else add_content e st s)"

fun emit_loop :: "env \<Rightarrow> loop_state \<Rightarrow> shape list \<Rightarrow> exn + loop_state" where
  "emit_loop e st [] = Inr st"
| "emit_loop e st (s # ss) =
     (case emit e st s of Inl x \<Rightarrow> Inl x | Inr st' \<Rightarrow> emit_loop e st' ss)"

definition queues :: "loop_state \<Rightarrow> content_section list \<times> pystr list list list \<times> pystr list" where
  "queues st = (content_sections st, tables st, other_shapes st)"

text \<open>The three forms of a body line, and the form the source gives a paragraph.\<close>

datatype line_form = SubHeading | BulletLine | PlainLine

definition render_as :: "int \<Rightarrow> line_form \<Rightarrow> para_info \<Rightarrow> pystr" where
  "render_as base_level form para =
     (case form of
        SubHeading \<Rightarrow> replicate (nat base_level) 35 @ lit '' '' @ sanitize_markdown (pi_text para)
      | BulletLine \<Rightarrow>
          concat (replicate (nat (pi_level para)) (lit ''  '')) @ lit ''* ''
          @ sanitize_markdown (pi_text para)
      | PlainLine \<Rightarrow> sanitize_markdown (pi_text para))"

definition line_form_of :: "para_info \<Rightarrow> line_form" where
  "line_form_of para =
     (if \<not> is_bullet para \<and> length (sanitize_markdown (pi_text para)) < 80 then SubHeading
      else if is_bullet para then BulletLine
      else PlainLine)"

text \<open>
  The path a file's markdown is written to; whether its conversion succeeds: it parses,
  every slide renders and the file can be written; the markdown of a file; and the
  message of the first exception of a conversion that fails.
\<close>

definition md_path_of :: "pystr \<Rightarrow> pptx_path \<Rightarrow> pystr" where
  "md_path_of output_dir p = output_dir @ lit ''/'' @ path_stem p @ lit ''.md''"

definition converts :: "world \<Rightarrow> env \<Rightarrow> pystr \<Rightarrow> pptx_path \<Rightarrow> bool" where
  "converts w e output_dir p =
     (case Presentation w p of
        Inl _ \<Rightarrow> False
      | Inr slides \<Rightarrow>
          (case md_content e p slides of
             Inl _ \<Rightarrow> False
           | Inr _ \<Rightarrow> write_error w (md_path_of output_dir p) = None))"

definition document :: "world \<Rightarrow> env \<Rightarrow> pptx_path \<Rightarrow> pystr" where
  "document w e p =
     (case Presentation w p of
        Inl _ \<Rightarrow> []
      | Inr slides \<Rightarrow>
          (case md_content e p slides of Inl _ \<Rightarrow> [] | Inr content \<Rightarrow> join [NL] content))"

definition failure_message :: "world \<Rightarrow> env \<Rightarrow> pystr \<Rightarrow> pptx_path \<Rightarrow> pystr" where
  "failure_message w e output_dir p =
     (case Presentation w p of
        Inl msg \<Rightarrow> msg
      | Inr slides \<Rightarrow>
          (case md_content e p slides of
             Inl x \<Rightarrow> str_exn x
           | Inr _ \<Rightarrow>
               (case write_error w (md_path_of output_dir p) of Some msg \<Rightarrow> msg | None \<Rightarrow> [])))"

definition error_line :: "world \<Rightarrow> env \<Rightarrow> pystr \<Rightarrow> pptx_path \<Rightarrow> pystr" where
  "error_line w e output_dir p = lit ''  -> Error: '' @ failure_message w e output_dir p"

definition output_dir_of :: "pptx_path list \<Rightarrow> pystr option \<Rightarrow> pystr" where
  "output_dir_of pptx_files out_arg =
     (case out_arg of
        Some d \<Rightarrow> d
      | None \<Rightarrow> (case pptx_files of [] \<Rightarrow> [] | first # _ \<Rightarrow> path_parent first))"

text \<open>
  The formatting metadata declares a bullet: the properties element of the file has a
  bullet character, automatic numbering or an image bullet among its children.
\<close>

definition declares_bullet :: "pPr_lookup \<Rightarrow> bool" where
  "declares_bullet l =
     (case l of
        PPr pPr \<Rightarrow> buChar pPr \<noteq> None \<or> buAutoNum pPr \<noteq> None \<or> buBlip pPr \<noteq> None
      | _ \<Rightarrow> False)"

text \<open>
  An iteration order of a set built from a list: each element of the list once. Which
  of these orders a run uses depends on the interpreter's string hashing.
\<close>

definition valid_iter :: "(pystr list \<Rightarrow> pystr list) \<Rightarrow> bool" where
  "valid_iter f = (\<forall>xs. distinct (f xs) \<and> set (f xs) = set xs)"

definition same_library :: "env \<Rightarrow> env \<Rightarrow> bool" where
  "same_library e1 e2 =
     (mso_member e1 = mso_member e2 \<and> mso_str e1 = mso_str e2 \<and> pPr_getattr e1 = pPr_getattr e2)"

text \<open>The descriptions a slide collects; none when the shape loop raises.\<close>

definition slide_descriptions :: "env \<Rightarrow> slide \<Rightarrow> pystr list" where
  "slide_descriptions e sl =
     (case shape_loop e (get_slide_title sl) initial_state (shapes sl) of
        Inl _ \<Rightarrow> []
      | Inr st \<Rightarrow> other_shapes st)"

text \<open>
  Two runs agree on a slide when it has at most one distinct description or both iterate
  its descriptions in the same order.
\<close>

definition same_order :: "env \<Rightarrow> env \<Rightarrow> slide \<Rightarrow> bool" where
  "same_order e1 e2 sl =
     (length (remdups (slide_descriptions e1 sl)) \<le> 1
      \<or> set_iter e1 (slide_descriptions e1 sl) = set_iter e2 (slide_descriptions e1 sl))"

text \<open>A presentation with the font size of every run removed.\<close>

definition erase_paragraph :: "text_paragraph \<Rightarrow> text_paragraph" where
  "erase_paragraph p = p\<lparr>par_runs := map (\<lambda>r. Run None) (par_runs p)\<rparr>"

definition erase_shape :: "shape \<Rightarrow> shape" where
  "erase_shape s = s\<lparr>text_frame := map_option (map erase_paragraph) (text_frame s)\<rparr>"

definition erase_slide :: "slide \<Rightarrow> slide" where
  "erase_slide sl = sl\<lparr>shapes := map erase_shape (shapes sl)\<rparr>"

text \<open>
  The font size removed from a paragraph record, from the paragraphs of a section and
  from the sections of a loop state.
\<close>

definition clear_font :: "para_info \<Rightarrow> para_info" where
  "clear_font para = para\<lparr>font_size := None\<rparr>"

definition clear_section :: "content_section \<Rightarrow> content_section" where
  "clear_section sec = sec\<lparr>sec_paragraphs := map clear_font (sec_paragraphs sec)\<rparr>"

definition clear_state :: "loop_state \<Rightarrow> loop_state" where
  "clear_state st = st\<lparr>content_sections := map clear_section (content_sections st)\<rparr>"

section \<open>Example inputs\<close>

text \<open>
  An environment as the presentation library gives it. Of the eight names the source
  looks up, \<open>MSO_SHAPE_TYPE\<close> has \<open>PICTURE\<close>, \<open>CHART\<close>, \<open>GROUP\<close>, \<open>LINE\<close> and
  \<open>AUTO_SHAPE\<close>; a member prints as its name and value; and the library's class of the
  paragraph properties element has no attribute \<open>buChar\<close>, \<open>buAutoNum\<close> or \<open>buBlip\<close>, so
  \<open>getattr\<close> yields its default. The second environment differs in the iteration order
  of sets only.
\<close>

definition mso_names :: "(int \<times> string) list" where
  "mso_names =
     [(1, ''AUTO_SHAPE''), (2, ''CALLOUT''), (3, ''CHART''), (4, ''COMMENT''), (5, ''FREEFORM''),
      (6, ''GROUP''), (7, ''EMBEDDED_OLE_OBJECT''), (8, ''FORM_CONTROL''), (9, ''LINE''),
      (10, ''LINKED_OLE_OBJECT''), (11, ''LINKED_PICTURE''), (12, ''OLE_CONTROL_OBJECT''),
      (13, ''PICTURE''), (14, ''PLACEHOLDER''), (15, ''TEXT_EFFECT''), (16, ''MEDIA''),
      (17, ''TEXT_BOX''), (18, ''SCRIPT_ANCHOR''), (19, ''TABLE''), (20, ''CANVAS''),
      (21, ''DIAGRAM''), (22, ''INK''), (23, ''INK_COMMENT''), (24, ''IGX_GRAPHIC''),
      (26, ''WEB_VIDEO'')]"

definition library_env :: env where
  "library_env =
     \<lparr> mso_member = (\<lambda>a. if a = ''PICTURE'' then Some 13 else if a = ''CHART'' then Some 3
                       else if a = ''GROUP'' then Some 6 else if a = ''LINE'' then Some 9
                       else if a = ''AUTO_SHAPE'' then Some 1 else None),
       mso_str = (\<lambda>t. case t of
                        None \<Rightarrow> lit ''None''
                      | Some n \<Rightarrow>
                          (case map_of mso_names n of
                             None \<Rightarrow> str_int n
                           | Some nm \<Rightarrow> lit nm @ lit '' ('' @ str_int n @ lit '')'')),
       pPr_getattr = (\<lambda>name pPr. None),
       set_iter = remdups \<rparr>"

definition reversed_env :: env where
  "reversed_env = library_env\<lparr>set_iter := (\<lambda>xs. rev (remdups xs))\<rparr>"

definition plain_par :: "pystr \<Rightarrow> text_paragraph" where
  "plain_par t = \<lparr> par_text = t, par_level = 0, par_pPr = PPr_None, par_runs = [] \<rparr>"

definition bullet_par :: "pystr \<Rightarrow> int \<Rightarrow> text_paragraph" where
  "bullet_par t lvl =
     \<lparr> par_text = t, par_level = lvl,
       par_pPr = PPr \<lparr> buChar = Some (lit ''-''), buAutoNum = None, buBlip = None \<rparr>,
       par_runs = [Run (Some 228600)] \<rparr>"

text \<open>A text box: its text is the text of its paragraphs, joined by line breaks.\<close>

definition text_box :: "text_paragraph list \<Rightarrow> shape" where
  "text_box ps =
     \<lparr> shape_type = Some 17, placeholder_format = None,
       sh_text = Some (join [NL] (map par_text ps)), text_frame = Some ps,
       sh_table = No_table, sh_name = Some (lit ''TextBox'') \<rparr>"

text \<open>A placeholder of a given placeholder type that holds one paragraph.\<close>

definition placeholder :: "int \<Rightarrow> pystr \<Rightarrow> shape" where
  "placeholder ty t =
     \<lparr> shape_type = Some 14, placeholder_format = Some ty,
       sh_text = Some t, text_frame = Some [plain_par t],
       sh_table = No_table, sh_name = Some (lit ''Placeholder'') \<rparr>"

text \<open>Graphic frames: one that holds a table, and a chart, whose \<open>table\<close> property raises.\<close>

definition table_frame :: "pystr list list \<Rightarrow> shape" where
  "table_frame rows =
     \<lparr> shape_type = Some 19, placeholder_format = None, sh_text = None, text_frame = None,
       sh_table = Table rows, sh_name = Some (lit ''Table'') \<rparr>"

definition chart :: "pystr \<Rightarrow> shape" where
  "chart n =
     \<lparr> shape_type = Some 3, placeholder_format = None, sh_text = None, text_frame = None,
       sh_table = Table_raises (lit ''shape does not contain a table''), sh_name = Some n \<rparr>"

definition picture :: "pystr \<Rightarrow> shape" where
  "picture n =
     \<lparr> shape_type = Some 13, placeholder_format = None, sh_text = None, text_frame = None,
       sh_table = No_table, sh_name = Some n \<rparr>"

text \<open>A slide with a title placeholder, a text box of two bullets, a table and a picture.\<close>

definition q1_slide :: slide where
  "q1_slide =
     \<lparr> shapes = [placeholder 1 (lit ''Q1 Results''),
                 text_box [bullet_par (lit ''Revenue up'') 0, bullet_par (lit ''Costs down'') 1],
                 table_frame [[lit ''A'', lit ''B''], [lit ''C|D'', lit ''E'']],
                 picture (lit ''Logo'')] \<rparr>"

text \<open>The slide \<open>q1_slide\<close> with other font sizes on its runs.\<close>

definition q1_slide_large :: slide where
  "q1_slide_large =
     \<lparr> shapes = [placeholder 1 (lit ''Q1 Results''),
                 text_box [(bullet_par (lit ''Revenue up'') 0)\<lparr>par_runs := [Run (Some 457200)]\<rparr>,
                           (bullet_par (lit ''Costs down'') 1)\<lparr>par_runs := [Run None]\<rparr>],
                 table_frame [[lit ''A'', lit ''B''], [lit ''C|D'', lit ''E'']],
                 picture (lit ''Logo'')] \<rparr>"

text \<open>A slide with a title placeholder and, after it, a footer placeholder.\<close>

definition footer_slide :: slide where
  "footer_slide =
     \<lparr> shapes = [placeholder 1 (lit ''Real Title''), placeholder 15 (lit ''Confidential'')] \<rparr>"

text \<open>
  A slide whose only shape is a placeholder of type 15 that holds 100 characters: the
  source resolves them as the title.
\<close>

definition long_title_slide :: slide where
  "long_title_slide = \<lparr> shapes = [placeholder 15 (replicate 100 97)] \<rparr>"

text \<open>A slide with one table: a single row that has no cells.\<close>

definition empty_row_slide :: slide where
  "empty_row_slide = \<lparr> shapes = [table_frame [[]]] \<rparr>"

text \<open>Two text boxes, each holding a backslash.\<close>

definition backslash_slide :: slide where
  "backslash_slide =
     \<lparr> shapes = [text_box [plain_par (lit ''a'' @ [BACKSLASH] @ lit ''b'')],
                 text_box [plain_par (lit ''c'' @ [BACKSLASH] @ lit ''d'')]] \<rparr>"

text \<open>A slide with two pictures of different names, and a slide with a picture and a chart.\<close>

definition two_pictures_slide :: slide where
  "two_pictures_slide = \<lparr> shapes = [picture (lit ''A''), picture (lit ''B'')] \<rparr>"

definition chart_slide :: slide where
  "chart_slide = \<lparr> shapes = [picture (lit ''Logo''), chart (lit ''Chart 1'')] \<rparr>"

text \<open>
  Paragraph records: a non-bullet paragraph of 79 characters that ends in a backslash,
  and a short paragraph, a bullet of level 2 and a long paragraph.
\<close>

definition escaped_par :: para_info where
  "escaped_par =
     \<lparr> pi_text = replicate 78 97 @ [BACKSLASH], pi_level = 0, is_bullet = False,
       font_size = None, used_as_header = False \<rparr>"

definition sample_paras :: "para_info list" where
  "sample_paras =
     [\<lparr> pi_text = lit ''Overview'', pi_level = 0, is_bullet = False,
        font_size = None, used_as_header = False \<rparr>,
      \<lparr> pi_text = lit ''Costs down'', pi_level = 2, is_bullet = True,
        font_size = Some 18, used_as_header = False \<rparr>,
      \<lparr> pi_text = replicate 80 120, pi_level = 0, is_bullet = False,
        font_size = None, used_as_header = False \<rparr>]"

text \<open>
  A text box whose paragraphs differ in their formatting metadata: the lookup raises,
  the paragraph is blank, the element is absent, a bullet character, automatic numbering,
  and an element that declares no bullet.
\<close>

definition mixed_box :: shape where
  "mixed_box =
     text_box [(plain_par (lit ''No metadata''))\<lparr>par_pPr := PPr_AttributeError\<rparr>,
               plain_par (lit ''   ''),
               plain_par (lit ''No properties''),
               bullet_par (lit ''A bullet'') 0,
               (plain_par (lit ''Numbered''))\<lparr>par_pPr :=
                  PPr \<lparr> buChar = None, buAutoNum = Some (lit ''arabicPeriod''), buBlip = None \<rparr>\<rparr>,
               (plain_par (lit ''Plain properties''))\<lparr>par_pPr :=
                  PPr \<lparr> buChar = None, buAutoNum = None, buBlip = None \<rparr>\<rparr>]"

text \<open>
  A batch of three files: the first does not parse, the second holds a slide with a
  chart, the third holds one slide that renders.
\<close>

definition bad_file :: pptx_path where
  "bad_file = \<lparr> path_name = lit ''bad.pptx'', path_stem = lit ''bad'', path_parent = lit ''reports'' \<rparr>"

definition chart_file :: pptx_path where
  "chart_file =
     \<lparr> path_name = lit ''charts.pptx'', path_stem = lit ''charts'', path_parent = lit ''reports'' \<rparr>"

definition good_file :: pptx_path where
  "good_file = \<lparr> path_name = lit ''good.pptx'', path_stem = lit ''good'', path_parent = lit ''reports'' \<rparr>"

definition batch_world :: world where
  "batch_world =
     \<lparr> Presentation = (\<lambda>p. if path_stem p = lit ''bad'' then Inl (lit ''Package not found'')
                           else if path_stem p = lit ''charts'' then Inr [chart_slide]
                           else Inr [q1_slide]),
       write_error = (\<lambda>path. None) \<rparr>"

definition no_effects :: effects where
  "no_effects = \<lparr> stdout = [], stderr = [], written = [] \<rparr>"

section \<open>Title resolution: the loops and the two searches\<close>

lemma first_return_find:
  assumes "\<And>x. body x = (if P x then Some (g x) else None)"
  shows "first_return body xs = map_option g (find P xs)"
  by (induction xs) (simp_all add: assms)

lemma placeholder_title_code:
  "placeholder_title s = (if is_header_or_footer s then Some (trimmed_text s) else None)"
  by (auto simp: placeholder_title_def is_header_or_footer_def trimmed_text_def
      PP_HEADER_def PP_FOOTER_def split: option.splits)

lemma fallback_title_spec:
  "fallback_title s = (if is_short_text s then Some (trimmed_text s) else None)"
  by (auto simp: fallback_title_def is_short_text_def trimmed_text_def split: option.splits)

lemma find_holds: "find P xs = Some x \<Longrightarrow> P x"
  by (induction xs) (auto split: if_splits)

lemma lit_Untitled: "lit ''Untitled'' \<noteq> []"
  by (simp add: lit_def)

text \<open>
  What the source resolves: the first placeholder of type 14 or 15 with text, else the
  first short text, else the default; never the empty string.
\<close>

lemma get_slide_title_searches:
  "get_slide_title sl
     = (case find is_header_or_footer (shapes sl) of
          Some s \<Rightarrow> trimmed_text s
        | None \<Rightarrow>
            (case find is_short_text (shapes sl) of
               Some s \<Rightarrow> trimmed_text s
             | None \<Rightarrow> lit ''Untitled''))"
  unfolding get_slide_title_def
  by (simp add: first_return_find [OF placeholder_title_code]
      first_return_find [OF fallback_title_spec] split: option.splits)

lemma get_slide_title_nonempty: "get_slide_title sl \<noteq> []"
proof (cases "find is_header_or_footer (shapes sl)")
  case (Some s)
  then have "is_header_or_footer s" by (rule find_holds)
  with Some show ?thesis
    by (simp add: get_slide_title_searches is_header_or_footer_def)
next
  case None
  show ?thesis
  proof (cases "find is_short_text (shapes sl)")
    case (Some s)
    then have "is_short_text s" by (rule find_holds)
    with None Some show ?thesis
      by (simp add: get_slide_title_searches is_short_text_def)
  next
    case None2: None
    with None show ?thesis
      by (simp add: get_slide_title_searches lit_Untitled)
  qed
qed

text \<open>
  Claim C1 at a slide with a title placeholder followed by a footer placeholder: the
  claim's first step returns the text of the title placeholder, the source returns the
  text of the footer, since the types it accepts are 14 and 15 and a title is 1.
\<close>

theorem footer_resolved_as_title:
  "get_slide_title footer_slide = lit ''Confidential''
   \<and> spec_title footer_slide = lit ''Real Title''"
  by (simp add: get_slide_title_searches spec_title_def footer_slide_def placeholder_def
      is_header_or_footer_def is_title_placeholder_def PLACEHOLDER_def PP_TITLE_def
      PP_HEADER_def PP_FOOTER_def trimmed_text_def strip_def lit_def isspace_def)

section \<open>The title skip\<close>

lemma emit_flag:
  "emit e (st\<lparr>title_shape_found := b\<rparr>) s
     = map_sum id (\<lambda>st'. st'\<lparr>title_shape_found := b\<rparr>) (emit e st s)"
  by (simp add: emit_def add_description_def add_content_def Let_def
      split: sum.splits bool.splits)

lemma emit_loop_flag:
  "emit_loop e (st\<lparr>title_shape_found := b\<rparr>) ss
     = map_sum id (\<lambda>st'. st'\<lparr>title_shape_found := b\<rparr>) (emit_loop e st ss)"
proof (induction ss arbitrary: st)
  case Nil
  then show ?case by simp
next
  case (Cons s ss)
  then show ?case
    by (cases "emit e st s") (simp_all add: emit_flag)
qed

lemma emit_keeps_flag:
  "emit e st s = Inr st' \<Longrightarrow> title_shape_found st' = title_shape_found st"
  by (auto simp: emit_def add_description_def add_content_def Let_def
      split: sum.splits bool.splits if_splits)

lemma shape_step_found:
  "title_shape_found st \<Longrightarrow> shape_step e title st s = emit e st s"
  by (simp add: shape_step_def emit_def split: sum.splits)

lemma shape_loop_found:
  "title_shape_found st \<Longrightarrow> shape_loop e title st ss = emit_loop e st ss"
proof (induction ss arbitrary: st)
  case Nil
  then show ?case by simp
next
  case (Cons s ss)
  show ?case
  proof (cases "emit e st s")
    case (Inl x)
    with Cons.prems show ?thesis by (simp add: shape_step_found)
  next
    case (Inr st')
    then have "title_shape_found st'"
      using Cons.prems emit_keeps_flag by blast
    with Inr Cons.prems Cons.IH show ?thesis by (simp add: shape_step_found)
  qed
qed

lemma shape_step_not_found:
  "\<not> title_shape_found st \<Longrightarrow>
     shape_step e title st s
       = (if title_skip title s then Inr (st\<lparr>title_shape_found := True\<rparr>) else emit e st s)"
  by (auto simp: shape_step_def emit_def title_skip_def is_title_text_def
      split: option.splits sum.splits)

lemma shape_loop_queues:
  "\<not> title_shape_found st \<Longrightarrow>
     map_sum id queues (shape_loop e title st ss)
       = map_sum id queues (emit_loop e st (remove_first (title_skip title) ss))"
proof (induction ss arbitrary: st)
  case Nil
  then show ?case by simp
next
  case (Cons s ss)
  show ?case
  proof (cases "title_skip title s")
    case True
    have "shape_loop e title st (s # ss)
            = emit_loop e (st\<lparr>title_shape_found := True\<rparr>) ss"
      using Cons.prems True by (simp add: shape_step_not_found shape_loop_found)
    then show ?thesis
      using True
      by (cases "emit_loop e st ss") (simp_all add: emit_loop_flag queues_def)
  next
    case False
    show ?thesis
    proof (cases "emit e st s")
      case (Inl x)
      with Cons.prems False show ?thesis by (simp add: shape_step_not_found)
    next
      case (Inr st')
      then have "\<not> title_shape_found st'"
        using Cons.prems emit_keeps_flag by blast
      then show ?thesis
        using Cons.IH [of st'] Cons.prems False Inr by (simp add: shape_step_not_found)
    qed
  qed
qed

lemma md_lines_queues:
  "queues st = queues st' \<Longrightarrow> md_lines e n title st = md_lines e n title st'"
  by (simp add: md_lines_def queues_def)

lemma render_queues:
  assumes "map_sum id queues a = map_sum id queues b"
  shows "map_sum id (\<lambda>st. join [NL] (md_lines e n title st)) a
           = map_sum id (\<lambda>st. join [NL] (md_lines e n title st)) b"
proof (cases a)
  case (Inl x)
  with assms show ?thesis by (cases b) simp_all
next
  case (Inr st)
  with assms obtain st' where b: "b = Inr st'" and q: "queues st = queues st'"
    by (cases b) simp_all
  with Inr md_lines_queues [OF q] show ?thesis by simp
qed

lemma process_slide_loop:
  "process_slide e sl n
     = map_sum id (\<lambda>st. join [NL] (md_lines e n (get_slide_title sl) st))
         (shape_loop e (get_slide_title sl) initial_state (shapes sl))"
  by (simp add: process_slide_def Let_def split: sum.splits)

lemma strip_replicate: "\<not> isspace c \<Longrightarrow> strip (replicate n c) = replicate n c"
  by (simp add: strip_def)

lemma long_title: "get_slide_title long_title_slide = replicate 100 97"
  by (simp add: get_slide_title_def long_title_slide_def placeholder_def
      placeholder_title_def PLACEHOLDER_def strip_replicate isspace_def)

lemma q1_title: "get_slide_title q1_slide = lit ''Q1 Results''"
  by (simp add: get_slide_title_searches q1_slide_def placeholder_def text_box_def
      table_frame_def picture_def is_header_or_footer_def is_short_text_def PLACEHOLDER_def
      PP_HEADER_def PP_FOOTER_def trimmed_text_def strip_def lit_def isspace_def NL_def)

text \<open>
  Claim C2, as amended. The shape loop skips exactly one shape: the first shape that has
  content, has text, and whose trimmed text equals the resolved title (whatever its
  length) or is shorter than 100 characters and occurs in the title. The queues, and so
  the rendered slide, are those of the slide with that one shape removed and every other
  shape emitted; no later shape is skipped.
\<close>

theorem title_shape_skipped_once:
  "map_sum id queues (shape_loop e (get_slide_title sl) initial_state (shapes sl))
     = map_sum id queues
         (emit_loop e initial_state (remove_first (title_skip (get_slide_title sl)) (shapes sl)))
   \<and> process_slide e sl n
     = map_sum id (\<lambda>st. join [NL] (md_lines e n (get_slide_title sl) st))
         (emit_loop e initial_state (remove_first (title_skip (get_slide_title sl)) (shapes sl)))"
proof -
  have q: "map_sum id queues (shape_loop e (get_slide_title sl) initial_state (shapes sl))
     = map_sum id queues
         (emit_loop e initial_state (remove_first (title_skip (get_slide_title sl)) (shapes sl)))"
    by (rule shape_loop_queues) (simp add: initial_state_def)
  show ?thesis
    using q render_queues [OF q, of e n "get_slide_title sl"]
    by (simp add: process_slide_loop)
qed

theorem title_shape_skipped_once_witness:
  "map_sum id queues
     (shape_loop library_env (get_slide_title q1_slide) initial_state (shapes q1_slide))
     = map_sum id queues (emit_loop library_env initial_state (tl (shapes q1_slide)))
   \<and> process_slide library_env q1_slide 1
     = map_sum id (\<lambda>st. join [NL] (md_lines library_env 1 (lit ''Q1 Results'') st))
         (emit_loop library_env initial_state (tl (shapes q1_slide)))"
proof -
  have r: "remove_first (title_skip (lit ''Q1 Results'')) (shapes q1_slide) = tl (shapes q1_slide)"
    by (simp add: q1_slide_def placeholder_def title_skip_def has_content_def
      strip_def lit_def isspace_def)
  show ?thesis
    using title_shape_skipped_once [of library_env q1_slide 1] by (simp add: q1_title r)
qed

text \<open>
  The claim as stated fails: a title of 100 characters is not under 100 characters, so
  the stated rule keeps the shape that holds it, while the source skips it because its
  text equals the title.
\<close>

theorem stated_skip_counterexample:
  "map_sum id queues
     (shape_loop library_env (get_slide_title long_title_slide) initial_state
        (shapes long_title_slide))
   \<noteq> map_sum id queues
       (emit_loop library_env initial_state
          (remove_first (stated_skip (get_slide_title long_title_slide))
             (shapes long_title_slide)))"
  apply (simp add: long_title)
  apply (simp add: long_title_slide_def placeholder_def queues_def initial_state_def
      shape_step_def has_content_def is_title_text_def stated_skip_def trimmed_text_def
      strip_replicate isspace_def emit_def add_content_def has_table_def
      extract_paragraphs_def plain_par_def)
  done

section \<open>Empty tables\<close>

lemma no_rows_omitted:
  "sh_table s = Table [] \<Longrightarrow>
     map_sum id queues (shape_step e title st s) = Inr (queues st)"
  by (simp add: shape_step_def has_content_def has_table_def add_content_def
      extract_table_data_def queues_def split: option.splits)

text \<open>
  Claim C3 at a table whose only row has no cells: the grid is not empty as a list, so
  the shape loop queues it, and the slide gets a \<open>Data Table\<close> heading with an empty
  table under it.
\<close>

theorem empty_first_row_heading:
  "process_slide library_env empty_row_slide 1
     = Inr (lit ''\<newline># Slide 1 - Untitled\<newline>\<newline>\<newline>## Data Table\<newline>\<newline>\<newline>'')"
  by (simp add: process_slide_def empty_row_slide_def table_frame_def get_slide_title_def
      placeholder_title_def fallback_title_def initial_state_def shape_step_def
      has_content_def has_table_def add_content_def extract_table_data_def md_lines_def
      table_lines_def other_lines_def slide_heading_def table_to_markdown_def str_int_def
      str_nat.simps lit_def NL_def)

section \<open>Sanitization\<close>

text \<open>
  Claim C4 at a slide whose title and whose section heading each hold a backslash: the
  section heading has it doubled, the slide title has not.
\<close>

theorem title_not_sanitized:
  "process_slide library_env backslash_slide 1
     = Inr (lit ''\<newline># Slide 1 - a'' @ [BACKSLASH] @ lit ''b\<newline>\<newline>\<newline>## c''
            @ [BACKSLASH, BACKSLASH] @ lit ''d\<newline>'')"
  by (simp add: process_slide_def backslash_slide_def text_box_def plain_par_def
      get_slide_title_def placeholder_title_def fallback_title_def initial_state_def
      shape_step_def has_content_def has_table_def is_title_text_def add_content_def
      extract_paragraphs_def make_para_info_def bullet_flag_def bullet_try_def
      first_font_size_def make_section_def md_lines_def section_lines_def
      sanitize_markdown_def replace_def other_lines_def slide_heading_def str_int_def
      str_nat.simps lit_def NL_def BACKSLASH_def strip_def isspace_def)

section \<open>Rendering succeeds or raises\<close>

text \<open>A slide renders when the \<open>table\<close> property of none of its shapes raises.\<close>

lemma shape_step_ok:
  assumes "\<forall>msg. sh_table s \<noteq> Table_raises msg"
  shows "\<exists>st'. shape_step e title st s = Inr st'"
proof (cases "sh_table s")
  case No_table
  then show ?thesis
    by (simp add: shape_step_def has_content_def has_table_def add_content_def Let_def)
next
  case (Table_raises msg)
  with assms show ?thesis by simp
next
  case (Table rows)
  then show ?thesis
    by (simp add: shape_step_def has_content_def has_table_def add_content_def
        extract_table_data_def)
qed

lemma shape_loop_ok:
  "\<forall>s \<in> set ss. \<forall>msg. sh_table s \<noteq> Table_raises msg \<Longrightarrow>
     \<exists>st'. shape_loop e title st ss = Inr st'"
proof (induction ss arbitrary: st)
  case Nil
  then show ?case by simp
next
  case (Cons s ss)
  then obtain st1 where "shape_step e title st s = Inr st1"
    using shape_step_ok [of s e title st] by auto
  with Cons show ?case by simp
qed

lemma q1_slide_renders: "\<exists>md. process_slide library_env q1_slide 1 = Inr md"
proof -
  have "\<forall>s \<in> set (shapes q1_slide). \<forall>msg. sh_table s \<noteq> Table_raises msg"
    by (simp add: q1_slide_def placeholder_def text_box_def table_frame_def picture_def)
  then obtain st where
    "shape_loop library_env (get_slide_title q1_slide) initial_state (shapes q1_slide) = Inr st"
    using shape_loop_ok by blast
  then show ?thesis
    by (simp add: process_slide_def)
qed

text \<open>Pictures are described; a chart makes the shape loop raise.\<close>

lemma picture_description:
  "get_shape_description library_env (picture n)
     = (if n \<noteq> [] then lit ''Image ('' @ n @ lit '')'' else lit ''Image'')"
  by (simp add: get_shape_description_def descriptions_def attr_names_def attr_label_def
      library_env_def picture_def lit_def)

lemma picture_description_nonempty: "get_shape_description library_env (picture n) \<noteq> []"
  by (simp add: picture_description lit_def)

lemma picture_has_content: "has_content (picture n) = Inr False"
  by (simp add: has_content_def has_table_def picture_def)

lemma picture_step:
  "shape_step library_env title st (picture n)
     = Inr (st\<lparr>other_shapes := other_shapes st @ [get_shape_description library_env (picture n)]\<rparr>)"
  by (simp add: shape_step_def picture_has_content add_description_def
      picture_description_nonempty Let_def)

lemma chart_has_content:
  "has_content (chart n) = Inl (ValueError (lit ''shape does not contain a table''))"
  by (simp add: has_content_def has_table_def chart_def)

lemma chart_step:
  "shape_step e title st (chart n) = Inl (ValueError (lit ''shape does not contain a table''))"
  by (simp add: shape_step_def chart_has_content)

lemma chart_slide_aborts:
  "process_slide library_env chart_slide 1
     = Inl (ValueError (lit ''shape does not contain a table''))"
  by (simp add: process_slide_def chart_slide_def picture_step chart_step)

section \<open>Body paragraphs\<close>

lemma replace_Nil_iff: "new \<noteq> [] \<Longrightarrow> replace c new s = [] \<longleftrightarrow> s = []"
  by (cases s) (simp_all add: replace_def)

lemma sanitize_Nil_iff: "sanitize_markdown t = [] \<longleftrightarrow> t = []"
  by (simp add: sanitize_markdown_def replace_Nil_iff)

lemma replace_append: "replace c new (s @ t) = replace c new s @ replace c new t"
  by (simp add: replace_def)

lemma replace_absent: "c \<notin> set s \<Longrightarrow> replace c new s = s"
  by (induction s) (simp_all add: replace_def)

lemma para_line_form:
  "para_line base p
     = (if pi_text p = [] then None else Some (render_as base (line_form_of p) p))"
  by (simp add: para_line_def render_as_def line_form_of_def Let_def sanitize_Nil_iff)

lemma para_lines_forms:
  "para_lines base ps
     = map (\<lambda>p. render_as base (line_form_of p) p) (filter (\<lambda>p. pi_text p \<noteq> []) ps)"
  by (induction ps) (simp_all add: para_line_form)

text \<open>
  Claim C5, as amended. Every paragraph with text yields one line, whatever the other
  paragraphs are: a sub-heading line exactly when it is no bullet and its text, with
  backslashes doubled, is shorter than 80 characters; a bullet line, indented by two
  spaces per level, exactly when its bullet flag is set; a plain line otherwise.
\<close>

theorem body_paragraph_forms:
  "paragraphs_to_markdown ps base
     = join [NL] (map (\<lambda>p. render_as base (line_form_of p) p)
                    (filter (\<lambda>p. pi_text p \<noteq> []) ps))
   \<and> (line_form_of p = SubHeading
        \<longleftrightarrow> (\<not> is_bullet p \<and> length (sanitize_markdown (pi_text p)) < 80))
   \<and> (line_form_of p = BulletLine \<longleftrightarrow> is_bullet p)
   \<and> (line_form_of p = PlainLine
        \<longleftrightarrow> (\<not> is_bullet p \<and> \<not> length (sanitize_markdown (pi_text p)) < 80))"
proof -
  have "paragraphs_to_markdown ps base
     = join [NL] (map (\<lambda>p. render_as base (line_form_of p) p)
                    (filter (\<lambda>p. pi_text p \<noteq> []) ps))"
    by (cases ps) (simp_all add: paragraphs_to_markdown_def para_lines_forms)
  then show ?thesis
    by (simp add: line_form_of_def)
qed

lemma sample_forms: "map line_form_of sample_paras = [SubHeading, BulletLine, PlainLine]"
  by (simp add: sample_paras_def line_form_of_def sanitize_markdown_def replace_absent
      BACKSLASH_def lit_def)

lemma sample_nonempty: "filter (\<lambda>p. pi_text p \<noteq> []) sample_paras = sample_paras"
  by (simp add: sample_paras_def lit_def)

lemma sample_rendered:
  "map (\<lambda>p. render_as 3 (line_form_of p) p) sample_paras
     = [lit ''### Overview'', lit ''    * Costs down'', replicate 80 120]"
  using sample_forms
  by (simp add: sample_paras_def render_as_def sanitize_markdown_def replace_absent
      BACKSLASH_def lit_def numeral_2_eq_2 numeral_3_eq_3)

theorem body_paragraph_forms_witness:
  "paragraphs_to_markdown sample_paras 3
     = lit ''### Overview\<newline>    * Costs down\<newline>'' @ replicate 80 120
   \<and> map line_form_of sample_paras = [SubHeading, BulletLine, PlainLine]"
  using body_paragraph_forms [of sample_paras 3 "hd sample_paras"]
  by (simp add: sample_forms sample_nonempty sample_rendered NL_def lit_def)

lemma escaped_par_sanitized:
  "sanitize_markdown (pi_text escaped_par) = replicate 78 97 @ [BACKSLASH, BACKSLASH]"
  by (simp add: escaped_par_def sanitize_markdown_def replace_append replace_absent BACKSLASH_def)
     (simp add: replace_def)

text \<open>
  The claim as stated fails: a non-bullet paragraph whose text has 79 characters, one of
  them a backslash, is under 80 characters and yet renders as a plain line, since the
  source measures the text after doubling the backslash.
\<close>

theorem raw_length_counterexample:
  "\<not> is_bullet escaped_par \<and> length (pi_text escaped_par) < 80
   \<and> paragraphs_to_markdown [escaped_par] 3 = render_as 3 PlainLine escaped_par
   \<and> paragraphs_to_markdown [escaped_par] 3 \<noteq> render_as 3 SubHeading escaped_par"
  using escaped_par_sanitized
  by (simp add: paragraphs_to_markdown_def para_line_def render_as_def Let_def)
     (simp add: escaped_par_def)

section \<open>The batch driver\<close>

lemma process_pptx_file_result:
  "fst (process_pptx_file w e p dir out) = converts w e dir p"
  by (simp add: process_pptx_file_def converts_def md_path_of_def Let_def
      split: sum.splits option.splits)

lemma process_pptx_file_stderr:
  "stderr (snd (process_pptx_file w e p dir out))
     = stderr out @ (if converts w e dir p then [] else [error_line w e dir p])"
  by (simp add: process_pptx_file_def converts_def md_path_of_def Let_def report_error_def
      error_line_def failure_message_def split: sum.splits option.splits)

lemma process_pptx_file_written:
  "written (snd (process_pptx_file w e p dir out))
     = written out @ (if converts w e dir p then [(md_path_of dir p, document w e p)] else [])"
  by (simp add: process_pptx_file_def converts_def md_path_of_def Let_def report_error_def
      document_def split: sum.splits option.splits)

lemma files_loop_count:
  "fst (files_loop w e dir fs (c, out)) = c + length (filter (converts w e dir) fs)"
proof (induction fs arbitrary: c out)
  case Nil
  then show ?case by simp
next
  case (Cons f fs)
  obtain ok out' where p: "process_pptx_file w e f dir out = (ok, out')"
    by (cases "process_pptx_file w e f dir out")
  then have "ok = converts w e dir f"
    using process_pptx_file_result [of w e f dir out] by simp
  with p show ?case by (simp add: Cons.IH)
qed

lemma files_loop_stderr:
  "stderr (snd (files_loop w e dir fs (c, out)))
     = stderr out @ map (error_line w e dir) (filter (\<lambda>f. \<not> converts w e dir f) fs)"
proof (induction fs arbitrary: c out)
  case Nil
  then show ?case by simp
next
  case (Cons f fs)
  obtain ok out' where p: "process_pptx_file w e f dir out = (ok, out')"
    by (cases "process_pptx_file w e f dir out")
  then have "stderr out' = stderr out @ (if converts w e dir f then [] else [error_line w e dir f])"
    using process_pptx_file_stderr [of w e f dir out] by simp
  with p show ?case by (simp add: Cons.IH)
qed

lemma files_loop_written:
  "written (snd (files_loop w e dir fs (c, out)))
     = written out
       @ map (\<lambda>f. (md_path_of dir f, document w e f)) (filter (converts w e dir) fs)"
proof (induction fs arbitrary: c out)
  case Nil
  then show ?case by simp
next
  case (Cons f fs)
  obtain ok out' where p: "process_pptx_file w e f dir out = (ok, out')"
    by (cases "process_pptx_file w e f dir out")
  then have "written out'
      = written out @ (if converts w e dir f then [(md_path_of dir f, document w e f)] else [])"
    using process_pptx_file_written [of w e f dir out] by simp
  with p show ?case by (simp add: Cons.IH)
qed

lemma all_counted: "length (filter P xs) = length xs \<longleftrightarrow> list_all P xs"
proof -
  have "length (filter P xs) + length (filter (\<lambda>x. \<not> P x) xs) = length xs"
    by (rule sum_length_filter_compl)
  then have "length (filter P xs) = length xs \<longleftrightarrow> filter (\<lambda>x. \<not> P x) xs = []"
    by auto
  then show ?thesis
    by (simp add: filter_empty_conv list_all_iff)
qed

lemma main_parts:
  assumes "files \<noteq> []"
  shows "main w e files out_arg out
     = (case files_loop w e (output_dir_of files out_arg) files
               (0, out\<lparr>stdout := stdout out
                         @ [lit ''Found '' @ str_nat (length files) @ lit '' PPTX file(s)'',
                            lit ''Output directory: '' @ output_dir_of files out_arg @ [NL]]\<rparr>) of
          (success_count, out2) \<Rightarrow>
            (if success_count = length files then 0 else 1,
             out2\<lparr>stdout := stdout out2
                    @ [NL # lit ''Completed: '' @ str_nat success_count @ lit ''/''
                       @ str_nat (length files) @ lit '' files converted'']\<rparr>))"
  using assms
  by (cases files; cases out_arg)
     (simp_all add: main_def output_dir_of_def Let_def del: files_loop.simps)

text \<open>
  Claim C6. The exit status is 0 exactly when the work list is not empty and every file
  in it converts, and 1 otherwise, also for an empty list. A file whose parsing,
  rendering or writing raises is reported on the error stream with the message of the
  exception and counted as a failure, and the loop goes on: every file that converts is
  written, whatever failed before it.
\<close>

theorem batch_exit_status:
  "(fst (main w e files out_arg out) = 0
      \<longleftrightarrow> files \<noteq> [] \<and> list_all (converts w e (output_dir_of files out_arg)) files)
   \<and> (fst (main w e files out_arg out) = 0 \<or> fst (main w e files out_arg out) = 1)
   \<and> written (snd (main w e files out_arg out))
       = written out
         @ map (\<lambda>f. (md_path_of (output_dir_of files out_arg) f, document w e f))
             (filter (converts w e (output_dir_of files out_arg)) files)
   \<and> stderr (snd (main w e files out_arg out))
       = stderr out
         @ (if files = [] then [lit ''No PPTX files found to process.'']
            else map (error_line w e (output_dir_of files out_arg))
                   (filter (\<lambda>f. \<not> converts w e (output_dir_of files out_arg) f) files))"
proof (cases "files = []")
  case True
  then show ?thesis by (simp add: main_def)
next
  case False
  define dir where "dir = output_dir_of files out_arg"
  define out1 where "out1 = out\<lparr>stdout := stdout out
        @ [lit ''Found '' @ str_nat (length files) @ lit '' PPTX file(s)'',
           lit ''Output directory: '' @ output_dir_of files out_arg @ [NL]]\<rparr>"
  obtain c out2 where l: "files_loop w e dir files (0, out1) = (c, out2)"
    by (cases "files_loop w e dir files (0, out1)")
  have c: "c = length (filter (converts w e dir) files)"
    using files_loop_count [of w e dir files 0 out1] l by simp
  have s: "stderr out2 = stderr out @ map (error_line w e dir) (filter (\<lambda>f. \<not> converts w e dir f) files)"
    using files_loop_stderr [of w e dir files 0 out1] l by (simp add: out1_def)
  have wr: "written out2 = written out
       @ map (\<lambda>f. (md_path_of dir f, document w e f)) (filter (converts w e dir) files)"
    using files_loop_written [of w e dir files 0 out1] l by (simp add: out1_def)
  have m: "main w e files out_arg out
      = (if c = length files then 0 else 1,
         out2\<lparr>stdout := stdout out2
                @ [NL # lit ''Completed: '' @ str_nat c @ lit ''/''
                   @ str_nat (length files) @ lit '' files converted'']\<rparr>)"
    using l by (simp add: main_parts [OF False] dir_def out1_def)
  show ?thesis
    using False by (simp add: m s wr c all_counted flip: dir_def)
qed

theorem batch_exit_status_witness:
  "fst (main batch_world library_env [bad_file, chart_file, good_file] None no_effects) = 1
   \<and> map fst (written (snd (main batch_world library_env [bad_file, chart_file, good_file]
                            None no_effects)))
       = [lit ''reports/good.md'']
   \<and> stderr (snd (main batch_world library_env [bad_file, chart_file, good_file] None
                    no_effects))
       = [lit ''  -> Error: Package not found'',
          lit ''  -> Error: shape does not contain a table'']"
proof -
  have c1: "\<not> converts batch_world library_env (lit ''reports'') bad_file"
    by (simp add: converts_def batch_world_def bad_file_def)
  have p2: "Presentation batch_world chart_file = Inr [chart_slide]"
    by (simp add: batch_world_def chart_file_def lit_def)
  have m2: "md_content library_env chart_file [chart_slide]
              = Inl (ValueError (lit ''shape does not contain a table''))"
    by (simp add: md_content_def chart_slide_aborts)
  have c2: "\<not> converts batch_world library_env (lit ''reports'') chart_file"
    by (simp add: converts_def p2 m2)
  have p3: "Presentation batch_world good_file = Inr [q1_slide]"
    by (simp add: batch_world_def good_file_def lit_def)
  obtain md where m3: "process_slide library_env q1_slide 1 = Inr md"
    using q1_slide_renders by blast
  have c3: "converts batch_world library_env (lit ''reports'') good_file"
    by (simp add: converts_def p3 md_content_def m3) (simp add: batch_world_def)
  have d: "output_dir_of [bad_file, chart_file, good_file] None = lit ''reports''"
    by (simp add: output_dir_of_def bad_file_def)
  have e1: "error_line batch_world library_env (lit ''reports'') bad_file
              = lit ''  -> Error: Package not found''"
    by (simp add: error_line_def failure_message_def batch_world_def bad_file_def lit_def)
  have e2: "error_line batch_world library_env (lit ''reports'') chart_file
              = lit ''  -> Error: shape does not contain a table''"
    by (simp add: error_line_def failure_message_def p2 m2 str_exn_def) (simp add: lit_def)
  have p: "md_path_of (lit ''reports'') good_file = lit ''reports/good.md''"
    by (simp add: md_path_of_def good_file_def lit_def)
  show ?thesis
    using batch_exit_status [of batch_world library_env "[bad_file, chart_file, good_file]"
        None no_effects]
    by (auto simp: d c1 c2 c3 e1 e2 p no_effects_def)
qed

section \<open>Bullet classification\<close>

text \<open>
  Missing formatting metadata never raises out of the \<open>try\<close> block and yields no bullet,
  in every environment.
\<close>

lemma missing_metadata_no_bullet:
  "bullet_try e PPr_AttributeError = Inl AttributeError
   \<and> bullet_flag e PPr_AttributeError = False
   \<and> bullet_flag e PPr_None = False"
  by (simp add: bullet_flag_def bullet_try_def)

lemma library_flag_false: "bullet_flag library_env l = False"
  by (cases l) (simp_all add: bullet_flag_def bullet_try_def library_env_def)

lemma library_paragraphs_no_bullet:
  "map is_bullet (paragraphs_loop library_env ps)
     = map (\<lambda>p. False) (filter (\<lambda>p. strip (par_text p) \<noteq> []) ps)"
  by (induction ps) (simp_all add: make_para_info_def library_flag_false)

text \<open>
  Claim C7 at a text box with a paragraph that declares a bullet character and one that
  declares automatic numbering: the metadata declares a bullet for both, and the source
  extracts both as no bullet, since \<open>getattr\<close> finds none of the three attributes on the
  library's element.
\<close>

theorem declared_bullet_not_seen:
  "map pi_text (extract_paragraphs library_env mixed_box)
     = [lit ''No metadata'', lit ''No properties'', lit ''A bullet'', lit ''Numbered'',
        lit ''Plain properties'']
   \<and> map is_bullet (extract_paragraphs library_env mixed_box)
     = [False, False, False, False, False]
   \<and> map (\<lambda>p. declares_bullet (par_pPr p))
       (filter (\<lambda>p. strip (par_text p) \<noteq> [])
          (case text_frame mixed_box of None \<Rightarrow> [] | Some ps \<Rightarrow> ps))
     = [False, False, True, True, False]"
  by (simp add: mixed_box_def text_box_def plain_par_def bullet_par_def declares_bullet_def
      extract_paragraphs_def make_para_info_def library_flag_false strip_def isspace_def
      lit_def)

theorem declared_bullet_not_seen_witness:
  "map is_bullet (extract_paragraphs library_env mixed_box)
   \<noteq> map (\<lambda>p. declares_bullet (par_pPr p))
       (filter (\<lambda>p. strip (par_text p) \<noteq> [])
          (case text_frame mixed_box of None \<Rightarrow> [] | Some ps \<Rightarrow> ps))"
  using declared_bullet_not_seen by simp

section \<open>Shape categories\<close>

lemma chart_description:
  "get_shape_description library_env (chart (lit ''Chart 1'')) = lit ''Chart (Chart 1)''"
  by (simp add: get_shape_description_def descriptions_def attr_names_def attr_label_def
      library_env_def chart_def lit_def)

text \<open>
  Claim C9 at a slide with a picture and a chart. The source has a description for a
  chart, but the test for content raises on it: the chart gets no category, the shape
  loop ends with the exception, and the slide, the picture's description included, is
  not rendered.
\<close>

theorem chart_not_classified:
  "has_content (chart (lit ''Chart 1''))
     = Inl (ValueError (lit ''shape does not contain a table''))
   \<and> get_shape_description library_env (chart (lit ''Chart 1'')) = lit ''Chart (Chart 1)''
   \<and> shape_loop library_env (get_slide_title chart_slide) initial_state (shapes chart_slide)
     = Inl (ValueError (lit ''shape does not contain a table''))
   \<and> process_slide library_env chart_slide 1
     = Inl (ValueError (lit ''shape does not contain a table''))"
  by (simp add: chart_has_content chart_description chart_slide_aborts)
     (simp add: chart_slide_def picture_step chart_step)

section \<open>Repeated runs\<close>

lemma descriptions_same: "same_library e1 e2 \<Longrightarrow> descriptions e1 = descriptions e2"
  by (simp add: descriptions_def same_library_def)

lemma get_shape_description_same:
  "same_library e1 e2 \<Longrightarrow> get_shape_description e1 s = get_shape_description e2 s"
  using descriptions_same [of e1 e2]
  by (simp add: get_shape_description_def same_library_def Let_def split: option.splits)

lemma bullet_flag_same: "same_library e1 e2 \<Longrightarrow> bullet_flag e1 l = bullet_flag e2 l"
  by (cases l) (simp_all add: bullet_flag_def bullet_try_def same_library_def)

lemma paragraphs_loop_same:
  "same_library e1 e2 \<Longrightarrow> paragraphs_loop e1 ps = paragraphs_loop e2 ps"
  by (induction ps) (simp_all add: make_para_info_def bullet_flag_same)

lemma extract_paragraphs_same:
  "same_library e1 e2 \<Longrightarrow> extract_paragraphs e1 s = extract_paragraphs e2 s"
  by (simp add: extract_paragraphs_def paragraphs_loop_same split: option.splits)

lemma add_description_same:
  "same_library e1 e2 \<Longrightarrow> add_description e1 st s = add_description e2 st s"
  by (simp add: add_description_def get_shape_description_same)

lemma add_content_same:
  "same_library e1 e2 \<Longrightarrow> add_content e1 st s = add_content e2 st s"
  by (simp add: add_content_def extract_paragraphs_same split: sum.splits bool.splits)

lemma shape_step_same:
  "same_library e1 e2 \<Longrightarrow> shape_step e1 title st s = shape_step e2 title st s"
  by (simp add: shape_step_def add_description_same add_content_same split: sum.splits)

lemma shape_loop_same:
  "same_library e1 e2 \<Longrightarrow> shape_loop e1 title st ss = shape_loop e2 title st ss"
  by (induction ss arbitrary: st) (simp_all add: shape_step_same split: sum.splits)

lemma distinct_singleton:
  assumes "distinct ys" and "set ys = {a}"
  shows "ys = [a]"
proof (cases ys)
  case Nil
  with assms show ?thesis by simp
next
  case (Cons y ys')
  with assms have y: "y = a" and n: "a \<notin> set ys'" and s: "set ys' \<subseteq> {a}"
    by auto
  from n s have "ys' = []" by (cases ys') auto
  with Cons y show ?thesis by simp
qed

lemma valid_iter_single:
  assumes "valid_iter f" and "length (remdups xs) \<le> 1" and "xs \<noteq> []"
  shows "f xs = remdups xs"
proof -
  have "card (set xs) \<le> 1"
    using assms(2) by (simp add: length_remdups_card_conv)
  moreover have "card (set xs) \<noteq> 0"
    using assms(3) by simp
  ultimately have "card (set xs) = 1" by linarith
  then obtain a where a: "set xs = {a}"
    by (rule card_1_singletonE)
  have "distinct (f xs)" "set (f xs) = {a}"
    using assms(1) a by (simp_all add: valid_iter_def)
  then have "f xs = [a]" by (rule distinct_singleton)
  moreover have "remdups xs = [a]"
    using a by (intro distinct_singleton) simp_all
  ultimately show ?thesis by simp
qed

lemma other_lines_same:
  assumes "valid_iter (set_iter e1)" and "valid_iter (set_iter e2)"
    and "length (remdups descs) \<le> 1 \<or> set_iter e1 descs = set_iter e2 descs"
  shows "other_lines e1 descs = other_lines e2 descs"
proof (cases "descs = []")
  case True
  then show ?thesis by (simp add: other_lines_def)
next
  case False
  have "set_iter e1 descs = set_iter e2 descs"
    using assms valid_iter_single [of "set_iter e1" descs]
      valid_iter_single [of "set_iter e2" descs] False
    by auto
  then show ?thesis by (simp add: other_lines_def)
qed

lemma process_slide_same:
  assumes "same_library e1 e2" and "valid_iter (set_iter e1)" and "valid_iter (set_iter e2)"
    and "same_order e1 e2 sl"
  shows "process_slide e1 sl n = process_slide e2 sl n"
proof (cases "shape_loop e1 (get_slide_title sl) initial_state (shapes sl)")
  case (Inl x)
  then show ?thesis
    by (simp add: process_slide_def shape_loop_same [OF assms(1), symmetric])
next
  case (Inr st)
  then have d: "slide_descriptions e1 sl = other_shapes st"
    by (simp add: slide_descriptions_def)
  have "other_lines e1 (other_shapes st) = other_lines e2 (other_shapes st)"
    using assms(2-4) d by (intro other_lines_same) (simp_all add: same_order_def)
  then show ?thesis
    using Inr
    by (simp add: process_slide_def md_lines_def shape_loop_same [OF assms(1), symmetric])
qed

lemma slides_loop_same:
  assumes "same_library e1 e2" and "valid_iter (set_iter e1)" and "valid_iter (set_iter e2)"
  shows "list_all (same_order e1 e2) slides \<Longrightarrow> slides_loop e1 idx slides = slides_loop e2 idx slides"
  by (induction slides arbitrary: idx)
     (simp_all add: process_slide_same [OF assms] split: sum.splits)

text \<open>
  Claim C8, as amended. Two runs with the same library, each iterating a set in some
  order of its elements, give the same markdown for a presentation whenever, on every
  slide, there is at most one distinct description of a decorative shape or both runs
  iterate the descriptions in the same order.
\<close>

theorem repeatable_up_to_set_order:
  assumes "same_library e1 e2" and "valid_iter (set_iter e1)" and "valid_iter (set_iter e2)"
    and "list_all (same_order e1 e2) slides"
  shows "md_content e1 p slides = md_content e2 p slides"
  using slides_loop_same [OF assms(1-3) assms(4), of 0]
  by (simp add: md_content_def)

lemma valid_iter_remdups: "valid_iter remdups"
  by (simp add: valid_iter_def)

lemma valid_iter_rev_remdups: "valid_iter (\<lambda>xs. rev (remdups xs))"
  by (simp add: valid_iter_def)

lemma envs_same_library: "same_library library_env reversed_env"
  by (simp add: same_library_def reversed_env_def)

lemma two_pictures_title: "get_slide_title two_pictures_slide = lit ''Untitled''"
  by (simp add: get_slide_title_def two_pictures_slide_def placeholder_title_def
      fallback_title_def picture_def)

lemma two_pictures_state:
  "shape_loop library_env title initial_state (shapes two_pictures_slide)
     = Inr (initial_state\<lparr>other_shapes := [lit ''Image (A)'', lit ''Image (B)'']\<rparr>)"
proof -
  have a: "get_shape_description library_env (picture (lit ''A'')) = lit ''Image (A)''"
    by (simp add: picture_description lit_def)
  have b: "get_shape_description library_env (picture (lit ''B'')) = lit ''Image (B)''"
    by (simp add: picture_description lit_def)
  show ?thesis
    by (simp add: two_pictures_slide_def picture_step a b initial_state_def)
qed

lemma two_pictures_iter:
  "set_iter library_env [lit ''Image (A)'', lit ''Image (B)''] = [lit ''Image (A)'', lit ''Image (B)'']"
  "set_iter reversed_env [lit ''Image (A)'', lit ''Image (B)''] = [lit ''Image (B)'', lit ''Image (A)'']"
  by (simp_all add: library_env_def reversed_env_def lit_def)

lemma two_pictures_forward:
  "process_slide library_env two_pictures_slide 1
     = Inr (lit ''\<newline># Slide 1 - Untitled\<newline>\<newline>\<newline>## Visual Elements\<newline>\<newline>- Image (A)\<newline>- Image (B)\<newline>'')"
proof -
  have "md_lines library_env 1 (lit ''Untitled'')
          (initial_state\<lparr>other_shapes := [lit ''Image (A)'', lit ''Image (B)'']\<rparr>)
        = [lit ''\<newline># Slide 1 - Untitled\<newline>'', lit ''\<newline>## Visual Elements\<newline>'',
           lit ''- Image (A)'', lit ''- Image (B)'', []]"
    by (simp add: md_lines_def initial_state_def other_lines_def two_pictures_iter
        slide_heading_def str_int_def str_nat.simps)
       (simp add: lit_def NL_def)
  then show ?thesis
    by (simp add: process_slide_def two_pictures_title two_pictures_state Let_def)
       (simp add: lit_def NL_def)
qed

lemma two_pictures_backward:
  "process_slide reversed_env two_pictures_slide 1
     = Inr (lit ''\<newline># Slide 1 - Untitled\<newline>\<newline>\<newline>## Visual Elements\<newline>\<newline>- Image (B)\<newline>- Image (A)\<newline>'')"
proof -
  have "md_lines reversed_env 1 (lit ''Untitled'')
          (initial_state\<lparr>other_shapes := [lit ''Image (A)'', lit ''Image (B)'']\<rparr>)
        = [lit ''\<newline># Slide 1 - Untitled\<newline>'', lit ''\<newline>## Visual Elements\<newline>'',
           lit ''- Image (B)'', lit ''- Image (A)'', []]"
    by (simp add: md_lines_def initial_state_def other_lines_def two_pictures_iter
        slide_heading_def str_int_def str_nat.simps)
       (simp add: lit_def NL_def)
  then show ?thesis
    by (simp add: process_slide_def two_pictures_title Let_def
        shape_loop_same [OF envs_same_library, symmetric] two_pictures_state)
       (simp add: lit_def NL_def)
qed

text \<open>
  The claim as stated fails: on a slide with two pictures, two runs that iterate the set
  of descriptions in opposite orders give different markdown.
\<close>

theorem set_order_counterexample:
  "same_library library_env reversed_env
   \<and> valid_iter (set_iter library_env) \<and> valid_iter (set_iter reversed_env)
   \<and> process_slide library_env two_pictures_slide 1
       \<noteq> process_slide reversed_env two_pictures_slide 1"
proof -
  have "process_slide library_env two_pictures_slide 1
          \<noteq> process_slide reversed_env two_pictures_slide 1"
    unfolding two_pictures_forward two_pictures_backward by (simp add: lit_def)
  moreover have "valid_iter (set_iter library_env)" "valid_iter (set_iter reversed_env)"
    by (simp_all add: library_env_def reversed_env_def valid_iter_remdups valid_iter_rev_remdups)
  ultimately show ?thesis
    using envs_same_library by simp
qed

lemma step_keeps_descriptions:
  "has_content s = Inr True \<Longrightarrow> shape_step e title st s = Inr st' \<Longrightarrow>
     other_shapes st' = other_shapes st"
  by (auto simp: shape_step_def add_content_def Let_def
      split: if_splits sum.splits bool.splits)

lemma q1_contents:
  "has_content (placeholder 1 (lit ''Q1 Results'')) = Inr True"
  "has_content (text_box [bullet_par (lit ''Revenue up'') 0, bullet_par (lit ''Costs down'') 1])
     = Inr True"
  "has_content (table_frame [[lit ''A'', lit ''B''], [lit ''C|D'', lit ''E'']]) = Inr True"
  by (simp_all add: has_content_def has_table_def placeholder_def text_box_def table_frame_def
      bullet_par_def strip_def isspace_def lit_def NL_def)

lemma logo_description: "get_shape_description library_env (picture (lit ''Logo'')) = lit ''Image (Logo)''"
  by (simp add: picture_description lit_def)

lemma q1_descriptions: "slide_descriptions library_env q1_slide = [lit ''Image (Logo)'']"
proof -
  define t where "t = get_slide_title q1_slide"
  have sh: "shapes q1_slide
      = [placeholder 1 (lit ''Q1 Results''),
         text_box [bullet_par (lit ''Revenue up'') 0, bullet_par (lit ''Costs down'') 1],
         table_frame [[lit ''A'', lit ''B''], [lit ''C|D'', lit ''E'']],
         picture (lit ''Logo'')]"
    by (simp add: q1_slide_def)
  have ok: "\<forall>msg. sh_table (placeholder 1 (lit ''Q1 Results'')) \<noteq> Table_raises msg"
    "\<forall>msg. sh_table (text_box [bullet_par (lit ''Revenue up'') 0,
        bullet_par (lit ''Costs down'') 1]) \<noteq> Table_raises msg"
    "\<forall>msg. sh_table (table_frame [[lit ''A'', lit ''B''], [lit ''C|D'', lit ''E'']])
        \<noteq> Table_raises msg"
    by (simp_all add: placeholder_def text_box_def table_frame_def)
  obtain s1 where s1: "shape_step library_env t initial_state
      (placeholder 1 (lit ''Q1 Results'')) = Inr s1"
    using shape_step_ok [OF ok(1)] by blast
  obtain s2 where s2: "shape_step library_env t s1
      (text_box [bullet_par (lit ''Revenue up'') 0, bullet_par (lit ''Costs down'') 1]) = Inr s2"
    using shape_step_ok [OF ok(2)] by blast
  obtain s3 where s3: "shape_step library_env t s2
      (table_frame [[lit ''A'', lit ''B''], [lit ''C|D'', lit ''E'']]) = Inr s3"
    using shape_step_ok [OF ok(3)] by blast
  have o1: "other_shapes s1 = []"
    using step_keeps_descriptions [OF q1_contents(1) s1] by (simp add: initial_state_def)
  have o2: "other_shapes s2 = []"
    using step_keeps_descriptions [OF q1_contents(2) s2] o1 by simp
  have o3: "other_shapes s3 = []"
    using step_keeps_descriptions [OF q1_contents(3) s3] o2 by simp
  have "shape_loop library_env t initial_state (shapes q1_slide)
          = Inr (s3\<lparr>other_shapes := [lit ''Image (Logo)'']\<rparr>)"
    by (simp add: sh s1 s2 s3 picture_step o3 logo_description)
  then show ?thesis
    by (simp add: slide_descriptions_def t_def)
qed

lemma empty_row_descriptions: "slide_descriptions library_env empty_row_slide = []"
proof -
  define t where "t = get_slide_title empty_row_slide"
  have sh: "shapes empty_row_slide = [table_frame [[]]]"
    by (simp add: empty_row_slide_def)
  have c: "has_content (table_frame [[]]) = Inr True"
    by (simp add: has_content_def has_table_def table_frame_def)
  have "\<forall>msg. sh_table (table_frame [[]]) \<noteq> Table_raises msg"
    by (simp add: table_frame_def)
  then obtain s1 where s1: "shape_step library_env t initial_state (table_frame [[]]) = Inr s1"
    using shape_step_ok by blast
  have o: "other_shapes s1 = []"
    using step_keeps_descriptions [OF c s1] by (simp add: initial_state_def)
  have "shape_loop library_env t initial_state (shapes empty_row_slide) = Inr s1"
    by (simp add: sh s1)
  then show ?thesis
    by (simp add: slide_descriptions_def t_def o)
qed

theorem repeatable_up_to_set_order_witness:
  "same_library library_env reversed_env
   \<and> valid_iter (set_iter library_env) \<and> valid_iter (set_iter reversed_env)
   \<and> list_all (same_order library_env reversed_env) [q1_slide, empty_row_slide]
   \<and> md_content library_env good_file [q1_slide, empty_row_slide]
       = md_content reversed_env good_file [q1_slide, empty_row_slide]"
proof -
  have v: "valid_iter (set_iter library_env)" "valid_iter (set_iter reversed_env)"
    by (simp_all add: library_env_def reversed_env_def valid_iter_remdups valid_iter_rev_remdups)
  have o: "list_all (same_order library_env reversed_env) [q1_slide, empty_row_slide]"
    by (simp add: same_order_def q1_descriptions empty_row_descriptions)
  show ?thesis
    using envs_same_library v o
      repeatable_up_to_set_order [OF envs_same_library v o, of good_file]
    by simp
qed

section \<open>Font sizes\<close>

lemma first_font_size_erased: "first_font_size (map (\<lambda>r. Run None) runs) = None"
  by (cases runs) (simp_all add: first_font_size_def)

lemma make_para_info_erased:
  "make_para_info e (erase_paragraph p) = clear_font (make_para_info e p)"
  by (simp add: make_para_info_def erase_paragraph_def clear_font_def first_font_size_erased)

lemma paragraphs_loop_erased:
  "paragraphs_loop e (map erase_paragraph ps) = map clear_font (paragraphs_loop e ps)"
  by (induction ps) (simp_all add: make_para_info_erased, simp_all add: erase_paragraph_def)

lemma extract_paragraphs_erased:
  "extract_paragraphs e (erase_shape s) = map clear_font (extract_paragraphs e s)"
  by (cases "text_frame s")
     (simp_all add: extract_paragraphs_def erase_shape_def paragraphs_loop_erased)

lemma erase_shape_fields:
  "shape_type (erase_shape s) = shape_type s"
  "placeholder_format (erase_shape s) = placeholder_format s"
  "sh_text (erase_shape s) = sh_text s"
  "sh_table (erase_shape s) = sh_table s"
  "sh_name (erase_shape s) = sh_name s"
  by (simp_all add: erase_shape_def)

lemma first_return_map:
  "(\<And>x. body (f x) = body x) \<Longrightarrow> first_return body (map f xs) = first_return body xs"
  by (induction xs) (simp_all split: option.splits)

lemma get_slide_title_erased: "get_slide_title (erase_slide sl) = get_slide_title sl"
proof -
  have p: "\<And>s. placeholder_title (erase_shape s) = placeholder_title s"
    by (simp add: placeholder_title_def erase_shape_fields split: option.splits)
  have f: "\<And>s. fallback_title (erase_shape s) = fallback_title s"
    by (simp add: fallback_title_def erase_shape_fields split: option.splits)
  show ?thesis
    by (simp add: get_slide_title_def erase_slide_def first_return_map [of placeholder_title, OF p]
        first_return_map [of fallback_title, OF f] split: option.splits)
qed

lemma mark_header_cleared:
  "mark_header (map clear_font ps)
     = (fst (mark_header ps), map clear_font (snd (mark_header ps)))"
  by (induction ps) (simp_all add: clear_font_def split: prod.splits)

lemma make_section_cleared:
  "make_section (map clear_font ps) = clear_section (make_section ps)"
  by (simp add: make_section_def mark_header_cleared clear_section_def split: prod.splits)

lemma has_table_erased: "has_table (erase_shape s) = has_table s"
  by (simp add: has_table_def erase_shape_fields)

lemma has_content_erased: "has_content (erase_shape s) = has_content s"
  by (simp add: has_content_def has_table_erased erase_shape_fields)

lemma get_shape_description_erased:
  "get_shape_description e (erase_shape s) = get_shape_description e s"
  by (simp add: get_shape_description_def erase_shape_fields Let_def split: option.splits)

lemma extract_table_data_erased: "extract_table_data (erase_shape s) = extract_table_data s"
  by (simp add: extract_table_data_def erase_shape_fields)

lemma add_description_cleared:
  "add_description e (clear_state st) (erase_shape s) = clear_state (add_description e st s)"
  by (simp add: add_description_def get_shape_description_erased clear_state_def Let_def)

lemma add_content_cleared:
  "add_content e (clear_state st) (erase_shape s)
     = map_sum id clear_state (add_content e st s)"
  by (simp add: add_content_def has_table_erased extract_table_data_erased
      extract_paragraphs_erased make_section_cleared clear_state_def Let_def
      split: sum.splits bool.splits)

lemma shape_step_cleared:
  "shape_step e title (clear_state st) (erase_shape s)
     = map_sum id clear_state (shape_step e title st s)"
proof -
  have f: "title_shape_found (clear_state st) = title_shape_found st"
    by (simp add: clear_state_def)
  have u: "clear_state (st\<lparr>title_shape_found := True\<rparr>) = (clear_state st)\<lparr>title_shape_found := True\<rparr>"
    by (simp add: clear_state_def)
  show ?thesis
    by (simp add: shape_step_def has_content_erased erase_shape_fields f u
        add_description_cleared add_content_cleared split: sum.splits)
qed

lemma shape_loop_cleared:
  "shape_loop e title (clear_state st) (map erase_shape ss)
     = map_sum id clear_state (shape_loop e title st ss)"
proof (induction ss arbitrary: st)
  case Nil
  then show ?case by simp
next
  case (Cons s ss)
  then show ?case
    by (cases "shape_step e title st s") (simp_all add: shape_step_cleared)
qed

lemma para_line_cleared: "para_line b (clear_font p) = para_line b p"
  by (simp add: para_line_def clear_font_def Let_def)

lemma para_lines_cleared: "para_lines b (map clear_font ps) = para_lines b ps"
  by (induction ps) (simp_all add: para_line_cleared split: option.splits)

lemma paragraphs_to_markdown_cleared:
  "paragraphs_to_markdown (map clear_font ps) b = paragraphs_to_markdown ps b"
  by (simp add: paragraphs_to_markdown_def para_lines_cleared)

lemma filter_headers_cleared:
  "filter (\<lambda>p. \<not> used_as_header p) (map clear_font ps)
     = map clear_font (filter (\<lambda>p. \<not> used_as_header p) ps)"
  by (induction ps) (simp_all add: clear_font_def)

lemma section_lines_cleared: "section_lines (clear_section sec) = section_lines sec"
  by (simp add: section_lines_def clear_section_def filter_headers_cleared
      paragraphs_to_markdown_cleared Let_def)

lemma md_lines_cleared: "md_lines e n title (clear_state st) = md_lines e n title st"
proof -
  have "map section_lines (map clear_section xs) = map section_lines xs" for xs
    by (induction xs) (simp_all add: section_lines_cleared)
  then show ?thesis
    by (simp add: md_lines_def clear_state_def del: map_map)
qed

lemma process_slide_erased: "process_slide e (erase_slide sl) n = process_slide e sl n"
proof -
  have i: "clear_state initial_state = initial_state"
    by (simp add: clear_state_def initial_state_def)
  have l: "shape_loop e title initial_state (map erase_shape ss)
          = map_sum id clear_state (shape_loop e title initial_state ss)" for title ss
    using shape_loop_cleared [of e title initial_state ss] by (simp add: i)
  have s: "shapes (erase_slide sl) = map erase_shape (shapes sl)"
    by (simp add: erase_slide_def)
  show ?thesis
    by (cases "shape_loop e (get_slide_title sl) initial_state (shapes sl)")
       (simp_all add: process_slide_def get_slide_title_erased s l md_lines_cleared)
qed

lemma slides_loop_erased: "slides_loop e idx (map erase_slide sls) = slides_loop e idx sls"
  by (induction sls arbitrary: idx) (simp_all add: process_slide_erased split: sum.splits)

text \<open>
  Claim C10. Two presentations that are equal once the font size of every run is
  removed, that is, that differ in the font sizes of paragraph runs at most, give the
  same markdown document.
\<close>

theorem font_size_never_read:
  assumes "map erase_slide prs1 = map erase_slide prs2"
  shows "md_content e p prs1 = md_content e p prs2"
proof -
  have "slides_loop e 0 prs1 = slides_loop e 0 (map erase_slide prs1)"
    by (simp add: slides_loop_erased)
  also have "\<dots> = slides_loop e 0 (map erase_slide prs2)"
    by (simp add: assms)
  also have "\<dots> = slides_loop e 0 prs2"
    by (simp add: slides_loop_erased)
  finally show ?thesis
    by (simp add: md_content_def)
qed

theorem font_size_never_read_witness:
  "map erase_slide [q1_slide] = map erase_slide [q1_slide_large]
   \<and> [q1_slide] \<noteq> [q1_slide_large]
   \<and> md_content library_env good_file [q1_slide]
       = md_content library_env good_file [q1_slide_large]"
proof -
  have h: "map erase_slide [q1_slide] = map erase_slide [q1_slide_large]"
    by (simp add: erase_slide_def erase_shape_def erase_paragraph_def q1_slide_def
        q1_slide_large_def text_box_def bullet_par_def placeholder_def plain_par_def
        table_frame_def picture_def)
  have d: "[q1_slide] \<noteq> [q1_slide_large]"
    by (simp add: q1_slide_def q1_slide_large_def text_box_def bullet_par_def)
  show ?thesis
    using h d font_size_never_read [OF h, of library_env good_file] by simp
qed

end
